theory Spec2Isabelle
  imports Main "HOL-Library.Finite_Map" "HOL-Library.Sublist"
begin

section \<open>Values shared by the whole package\<close>

text \<open>
  Go strings are byte sequences: they are modelled as \<^typ>\<open>string\<close>, a list of
  8-bit characters. An \<open>error\<close> value carries the message of \<open>errors.New\<close>; a
  returned \<open>nil\<close> error is \<open>None\<close>.
\<close>

datatype error = Err string

fun Error :: "error \<Rightarrow> string" where
  "Error (Err msg) = msg"

text \<open>
  \<open>net/url.URL\<close> with the fields of the Go struct. A \<open>*url.URL\<close> that the
  package passes around is modelled by the value it points to; the two places where
  identity matters (the copy made by \<open>Obscure\<close> and by the store) are written out.
\<close>

record Userinfo =
  username :: string
  password :: string
  passwordSet :: bool

record URL =
  Scheme :: string
  Opaque :: string
  User :: "Userinfo option"
  Host :: string
  Path :: string
  RawPath :: string
  ForceQuery :: bool
  RawQuery :: string
  Fragment :: string
  RawFragment :: string

definition new_URL :: URL where
  "new_URL = \<lparr>Scheme = [], Opaque = [], User = None, Host = [], Path = [], RawPath = [],
     ForceQuery = False, RawQuery = [], Fragment = [], RawFragment = []\<rparr>"

section \<open>net/url: parsing and printing\<close>

text \<open>
  The handler calls \<open>url.Parse\<close> and \<open>(*URL).String\<close> of the Go standard library.
  They are modelled after \<open>net/url/url.go\<close> of the Go releases of the package's time
  (1.15 to 1.18), function by function. The handler only compares a parse error with
  \<open>nil\<close>, so the error values carry the kind of the error and not the quoted operand.
\<close>

definition in_range :: "char \<Rightarrow> char \<Rightarrow> char \<Rightarrow> bool" where
  "in_range lo hi c \<longleftrightarrow> (of_char lo :: nat) \<le> of_char c \<and> (of_char c :: nat) \<le> of_char hi"

definition isAlnum :: "char \<Rightarrow> bool" where
  "isAlnum c \<longleftrightarrow> in_range CHR ''a'' CHR ''z'' c \<or> in_range CHR ''A'' CHR ''Z'' c \<or> in_range CHR ''0'' CHR ''9'' c"

definition ishex :: "char \<Rightarrow> bool" where
  "ishex c \<longleftrightarrow> in_range CHR ''0'' CHR ''9'' c \<or> in_range CHR ''a'' CHR ''f'' c \<or> in_range CHR ''A'' CHR ''F'' c"

definition unhex :: "char \<Rightarrow> nat" where
  "unhex c =
     (if in_range CHR ''0'' CHR ''9'' c then of_char c - of_char CHR ''0''
      else if in_range CHR ''a'' CHR ''f'' c then of_char c - of_char CHR ''a'' + 10
      else if in_range CHR ''A'' CHR ''F'' c then of_char c - of_char CHR ''A'' + 10
      else 0)"

datatype encoding =
  encodePath | encodePathSegment | encodeHost | encodeZone | encodeUserPassword
  | encodeQueryComponent | encodeFragment

text \<open>\<open>CHR 0x27\<close> is the single quote and \<open>CHR 0x22\<close> the double quote.\<close>

definition shouldEscape :: "char \<Rightarrow> encoding \<Rightarrow> bool" where
  "shouldEscape c mode =
     (if isAlnum c then False
      else if (mode = encodeHost \<or> mode = encodeZone)
              \<and> c \<in> set (''!$&()*+,;=:[]<>'' @ [CHR 0x27, CHR 0x22]) then False
      else if c \<in> set ''-_.~'' then False
      else if c \<in> set ''$&+,/:;=?@''
              \<and> mode \<in> {encodePath, encodePathSegment, encodeUserPassword, encodeQueryComponent, encodeFragment}
      then (case mode of
              encodePath \<Rightarrow> c = CHR ''?''
            | encodePathSegment \<Rightarrow> c \<in> set ''/;,?''
            | encodeUserPassword \<Rightarrow> c \<in> set ''@/?:''
            | encodeQueryComponent \<Rightarrow> True
            | _ \<Rightarrow> False)
      else if mode = encodeFragment \<and> c \<in> set ''!()*'' then False
      else True)"

datatype url_error =
  EscapeError | InvalidHostError | CTLByte | MissingScheme | ColonInFirstSegment
  | MissingBracket | InvalidPort | InvalidUserinfo

fun url_error_text :: "url_error \<Rightarrow> string" where
  "url_error_text EscapeError = ''invalid URL escape''"
| "url_error_text InvalidHostError = ''invalid character in host name''"
| "url_error_text CTLByte = ''net/url: invalid control character in URL''"
| "url_error_text MissingScheme = ''missing protocol scheme''"
| "url_error_text ColonInFirstSegment = ''first path segment in URL cannot contain colon''"
| "url_error_text MissingBracket = ''missing ] in host''"
| "url_error_text InvalidPort = ''invalid port after host''"
| "url_error_text InvalidUserinfo = ''net/url: invalid userinfo''"

text \<open>
  \<open>unescape\<close>: Go checks the whole string first and decodes it afterwards; both passes
  go from left to right, so one pass that reports the first malformed position gives the
  same result.
\<close>

fun unescape :: "string \<Rightarrow> encoding \<Rightarrow> url_error + string" where
  "unescape [] mode = Inr []"
| "unescape (c # s) mode =
     (if c = CHR ''%'' then
        (case s of
           h1 # h2 # rest \<Rightarrow>
             if \<not> ishex h1 \<or> \<not> ishex h2 then Inl EscapeError
             else if mode = encodeHost \<and> unhex h1 < 8 \<and> [h1, h2] \<noteq> ''25'' then Inl EscapeError
             else if mode = encodeZone \<and> [h1, h2] \<noteq> ''25''
                     \<and> char_of (unhex h1 * 16 + unhex h2) \<noteq> CHR '' ''
                     \<and> shouldEscape (char_of (unhex h1 * 16 + unhex h2)) encodeHost
                  then Inl EscapeError
             else (case unescape rest mode of
                     Inl e \<Rightarrow> Inl e
                   | Inr t \<Rightarrow> Inr (char_of (unhex h1 * 16 + unhex h2) # t))
         | _ \<Rightarrow> Inl EscapeError)
      else if c = CHR ''+'' then
        (case unescape s mode of
           Inl e \<Rightarrow> Inl e
         | Inr t \<Rightarrow> Inr ((if mode = encodeQueryComponent then CHR '' '' else CHR ''+'') # t))
      else if (mode = encodeHost \<or> mode = encodeZone) \<and> (of_char c :: nat) < 0x80
              \<and> shouldEscape c encodeHost then Inl InvalidHostError
      else (case unescape s mode of
              Inl e \<Rightarrow> Inl e
            | Inr t \<Rightarrow> Inr (c # t)))"

definition upperhex :: "nat \<Rightarrow> char" where
  "upperhex n = ''0123456789ABCDEF'' ! (n mod 16)"

definition escape :: "string \<Rightarrow> encoding \<Rightarrow> string" where
  "escape s mode =
     concat (map (\<lambda>c. if c = CHR '' '' \<and> mode = encodeQueryComponent \<and> shouldEscape c mode then ''+''
                       else if shouldEscape c mode
                       then [CHR ''%'', upperhex (of_char c div 16), upperhex (of_char c mod 16)]
                       else [c]) s)"

definition validEncoded :: "string \<Rightarrow> encoding \<Rightarrow> bool" where
  "validEncoded s mode =
     list_all (\<lambda>c. c \<in> set (''!$&()*+,;=:@[]%'' @ [CHR 0x27]) \<or> \<not> shouldEscape c mode) s"

definition stringContainsCTLByte :: "string \<Rightarrow> bool" where
  "stringContainsCTLByte s = list_ex (\<lambda>b. (of_char b :: nat) < 0x20 \<or> (of_char b :: nat) = 0x7f) s"

text \<open>
  \<open>split(s, sep, cutc)\<close> of \<open>net/url\<close>: the parts of \<open>s\<close> before and after the first \<open>sep\<close>; the
  separator stays at the head of the second part unless \<open>cutc\<close>. Without a separator
  the second part is empty.
\<close>

definition split_sep :: "string \<Rightarrow> char \<Rightarrow> bool \<Rightarrow> string \<times> string" where
  "split_sep s sep cutc =
     (case dropWhile (\<lambda>c. c \<noteq> sep) s of
        [] \<Rightarrow> (s, [])
      | c # rest \<Rightarrow> (takeWhile (\<lambda>c. c \<noteq> sep) s, if cutc then rest else c # rest))"

text \<open>
  \<open>getScheme\<close> scans the bytes; \<open>i\<close> is the number of bytes already read, all of them
  scheme bytes.
\<close>

fun getScheme_from :: "nat \<Rightarrow> string \<Rightarrow> string \<Rightarrow> url_error + (string \<times> string)" where
  "getScheme_from i rawurl [] = Inr ([], rawurl)"
| "getScheme_from i rawurl (c # cs) =
     (if in_range CHR ''a'' CHR ''z'' c \<or> in_range CHR ''A'' CHR ''Z'' c
      then getScheme_from (Suc i) rawurl cs
      else if in_range CHR ''0'' CHR ''9'' c \<or> c \<in> set ''+-.''
      then (if i = 0 then Inr ([], rawurl) else getScheme_from (Suc i) rawurl cs)
      else if c = CHR '':''
      then (if i = 0 then Inl MissingScheme else Inr (take i rawurl, cs))
      else Inr ([], rawurl))"

definition getScheme :: "string \<Rightarrow> url_error + (string \<times> string)" where
  "getScheme rawurl = getScheme_from 0 rawurl rawurl"

definition ToLower :: "string \<Rightarrow> string" where
  "ToLower s = map (\<lambda>c. if in_range CHR ''A'' CHR ''Z'' c then char_of (of_char c + (32::nat)) else c) s"

definition validOptionalPort :: "string \<Rightarrow> bool" where
  "validOptionalPort port =
     (case port of
        [] \<Rightarrow> True
      | c # digits \<Rightarrow> c = CHR '':'' \<and> list_all (in_range CHR ''0'' CHR ''9'') digits)"

definition validUserinfo :: "string \<Rightarrow> bool" where
  "validUserinfo s = list_all (\<lambda>r. isAlnum r \<or> r \<in> set (''-._:~!$&()*+,;=%@'' @ [CHR 0x27])) s"

text \<open>
  \<open>strings.LastIndex(s, sep)\<close> and \<open>strings.Index(s, sep)\<close> for a non-empty \<open>sep\<close>;
  \<open>None\<close> is Go's \<open>-1\<close>.
\<close>

fun Index :: "string \<Rightarrow> string \<Rightarrow> nat option" where
  "Index [] sep = (if sep = [] then Some 0 else None)"
| "Index (c # s) sep =
     (if prefix sep (c # s) then Some 0
      else (case Index s sep of None \<Rightarrow> None | Some i \<Rightarrow> Some (Suc i)))"

fun LastIndex :: "string \<Rightarrow> string \<Rightarrow> nat option" where
  "LastIndex [] sep = (if sep = [] then Some 0 else None)"
| "LastIndex (c # s) sep =
     (case LastIndex s sep of
        Some i \<Rightarrow> Some (Suc i)
      | None \<Rightarrow> (if prefix sep (c # s) then Some 0 else None))"

definition parseHost :: "string \<Rightarrow> url_error + string" where
  "parseHost host =
     (if prefix ''['' host then
        (case LastIndex host '']'' of
           None \<Rightarrow> Inl MissingBracket
         | Some i \<Rightarrow>
             if \<not> validOptionalPort (drop (Suc i) host) then Inl InvalidPort
             else (case Index (take i host) ''%25'' of
                     Some zone \<Rightarrow>
                       (case unescape (take zone host) encodeHost of
                          Inl e \<Rightarrow> Inl e
                        | Inr host1 \<Rightarrow>
                           (case unescape (drop zone (take i host)) encodeZone of
                              Inl e \<Rightarrow> Inl e
                            | Inr host2 \<Rightarrow>
                               (case unescape (drop i host) encodeHost of
                                  Inl e \<Rightarrow> Inl e
                                | Inr host3 \<Rightarrow> Inr (host1 @ host2 @ host3))))
                   | None \<Rightarrow> unescape host encodeHost))
      else (case LastIndex host '':'' of
              Some i \<Rightarrow>
                if \<not> validOptionalPort (drop i host) then Inl InvalidPort
                else unescape host encodeHost
            | None \<Rightarrow> unescape host encodeHost))"

definition parseAuthority :: "string \<Rightarrow> url_error + (Userinfo option \<times> string)" where
  "parseAuthority authority =
     (let i = LastIndex authority ''@'' in
      case parseHost (case i of None \<Rightarrow> authority | Some i \<Rightarrow> drop (Suc i) authority) of
        Inl e \<Rightarrow> Inl e
      | Inr host \<Rightarrow>
         (case i of
            None \<Rightarrow> Inr (None, host)
          | Some i \<Rightarrow>
             (let userinfo = take i authority in
              if \<not> validUserinfo userinfo then Inl InvalidUserinfo
              else if CHR '':'' \<notin> set userinfo then
                (case unescape userinfo encodeUserPassword of
                   Inl e \<Rightarrow> Inl e
                 | Inr u \<Rightarrow> Inr (Some \<lparr>username = u, password = [], passwordSet = False\<rparr>, host))
              else
                (let (name, pass) = split_sep userinfo CHR '':'' True in
                 case unescape name encodeUserPassword of
                   Inl e \<Rightarrow> Inl e
                 | Inr u \<Rightarrow>
                    (case unescape pass encodeUserPassword of
                       Inl e \<Rightarrow> Inl e
                     | Inr pw \<Rightarrow> Inr (Some \<lparr>username = u, password = pw, passwordSet = True\<rparr>, host))))))"

definition setPath :: "URL \<Rightarrow> string \<Rightarrow> url_error + URL" where
  "setPath u p =
     (case unescape p encodePath of
        Inl e \<Rightarrow> Inl e
      | Inr path \<Rightarrow>
          Inr (u\<lparr>Path := path, RawPath := (if p = escape path encodePath then [] else p)\<rparr>))"

definition setFragment :: "URL \<Rightarrow> string \<Rightarrow> url_error + URL" where
  "setFragment u f =
     (case unescape f encodeFragment of
        Inl e \<Rightarrow> Inl e
      | Inr frag \<Rightarrow>
          Inr (u\<lparr>Fragment := frag, RawFragment := (if f = escape frag encodeFragment then [] else f)\<rparr>))"

text \<open>
  \<open>parse(rawurl, viaRequest)\<close> of \<open>net/url\<close> with \<open>viaRequest = false\<close>, as \<open>Parse\<close>
  calls it.
\<close>

definition url_parse :: "string \<Rightarrow> url_error + URL" where
  "url_parse rawurl =
     (if stringContainsCTLByte rawurl then Inl CTLByte
      else if rawurl = ''*'' then Inr (new_URL\<lparr>Path := ''*''\<rparr>)
      else
       (case getScheme rawurl of
          Inl e \<Rightarrow> Inl e
        | Inr (scheme, rest0) \<Rightarrow>
           (let url = new_URL\<lparr>Scheme := ToLower scheme\<rparr>;
                (url, rest) =
                   (if suffix ''?'' rest0 \<and> count_list rest0 CHR ''?'' = 1
                    then (url\<lparr>ForceQuery := True\<rparr>, butlast rest0)
                    else (let (rest, q) = split_sep rest0 CHR ''?'' True in (url\<lparr>RawQuery := q\<rparr>, rest)))
            in
            if \<not> prefix ''/'' rest \<and> Scheme url \<noteq> [] then Inr (url\<lparr>Opaque := rest\<rparr>)
            else if \<not> prefix ''/'' rest \<and> CHR '':'' \<in> set (fst (split_sep rest CHR ''/'' True))
            then Inl ColonInFirstSegment
            else if (Scheme url \<noteq> [] \<or> \<not> prefix ''///'' rest) \<and> prefix ''//'' rest then
              (let (authority, rest) = split_sep (drop 2 rest) CHR ''/'' False in
               case parseAuthority authority of
                 Inl e \<Rightarrow> Inl e
               | Inr (user, host) \<Rightarrow> setPath (url\<lparr>User := user, Host := host\<rparr>) rest)
            else setPath url rest)))"

text \<open>
  \<open>Parse\<close> wraps the error of \<open>url_parse\<close> or \<open>setFragment\<close> into a \<open>*url.Error\<close>, whose
  message starts with \<open>parse\<close>.
\<close>

definition Parse :: "string \<Rightarrow> error + URL" where
  "Parse rawurl =
     (let (u, frag) = split_sep rawurl CHR ''#'' True in
      case url_parse u of
        Inl e \<Rightarrow> Inl (Err (''parse: '' @ url_error_text e))
      | Inr url \<Rightarrow>
          if frag = [] then Inr url
          else (case setFragment url frag of
                  Inl e \<Rightarrow> Inl (Err (''parse: '' @ url_error_text e))
                | Inr url \<Rightarrow> Inr url))"

definition EscapedPath :: "URL \<Rightarrow> string" where
  "EscapedPath u =
     (if RawPath u \<noteq> [] \<and> validEncoded (RawPath u) encodePath
         \<and> unescape (RawPath u) encodePath = Inr (Path u) then RawPath u
      else if Path u = ''*'' then ''*''
      else escape (Path u) encodePath)"

definition EscapedFragment :: "URL \<Rightarrow> string" where
  "EscapedFragment u =
     (if RawFragment u \<noteq> [] \<and> validEncoded (RawFragment u) encodeFragment
         \<and> unescape (RawFragment u) encodeFragment = Inr (Fragment u) then RawFragment u
      else escape (Fragment u) encodeFragment)"

definition Userinfo_String :: "Userinfo \<Rightarrow> string" where
  "Userinfo_String u =
     escape (username u) encodeUserPassword
     @ (if passwordSet u then '':'' @ escape (password u) encodeUserPassword else [])"

text \<open>\<open>(*URL).String\<close>; \<open>buf\<close> is what the builder holds before the path is written.\<close>

definition String :: "URL \<Rightarrow> string" where
  "String u =
     (if Scheme u \<noteq> [] then Scheme u @ '':'' else [])
     @ (if Opaque u \<noteq> [] then Opaque u
        else
         (let buf =
                (if Scheme u \<noteq> [] \<or> Host u \<noteq> [] \<or> User u \<noteq> None then
                   (if Host u \<noteq> [] \<or> Path u \<noteq> [] \<or> User u \<noteq> None then ''//'' else [])
                   @ (case User u of None \<Rightarrow> [] | Some ui \<Rightarrow> Userinfo_String ui @ ''@'')
                   @ (if Host u \<noteq> [] then escape (Host u) encodeHost else [])
                 else []);
              path = EscapedPath u;
              buf = buf @ (if path \<noteq> [] \<and> hd path \<noteq> CHR ''/'' \<and> Host u \<noteq> [] then ''/'' else []);
              buf = buf @ (if Scheme u = [] \<and> buf = [] \<and> CHR '':'' \<in> set (fst (split_sep path CHR ''/'' True))
                           then ''./'' else [])
          in buf @ path))
     @ (if ForceQuery u \<or> RawQuery u \<noteq> [] then ''?'' @ RawQuery u else [])
     @ (if Fragment u \<noteq> [] then ''#'' @ EscapedFragment u else [])"

section \<open>The obscurer (\<open>md5Obscurer\<close>, unnamed/part_005)\<close>

text \<open>
  \<open>strings.TrimLeft(s, cutset)\<close> for a cutset of ASCII bytes: every leading byte that
  is in the cutset is removed.
\<close>

definition TrimLeft :: "string \<Rightarrow> string \<Rightarrow> string" where
  "TrimLeft s cutset = dropWhile (\<lambda>c. c \<in> set cutset) s"

text \<open>
  \<open>fmt.Sprintf("%x", b)\<close> for a byte slice: two lower-case hexadecimal digits for
  every byte.
\<close>

definition hexdigit :: "nat \<Rightarrow> char" where
  "hexdigit n = ''0123456789abcdef'' ! (n mod 16)"

definition Sprintf_x :: "string \<Rightarrow> string" where
  "Sprintf_x b = concat (map (\<lambda>c. [hexdigit (of_char c div 16), hexdigit (of_char c mod 16)]) b)"

text \<open>
  \<open>crypto/md5\<close> is outside the repository. The package creates its digest with
  \<open>md5.New()\<close> and never calls \<open>Write\<close> on it, so the digest has one state only: the
  one nothing has been written to. \<open>Sum(b)\<close> of package \<open>hash\<close> appends the checksum
  of what has been written so far to \<open>b\<close> and leaves the digest as it is; for the
  fresh digest the checksum is that of the empty input,
  \<open>d41d8cd98f00b204e9800998ecf8427e\<close> (RFC 1321, appendix A.5).
\<close>

datatype Hash = md5_New

definition md5_of_nothing :: string where
  "md5_of_nothing = map char_of
     [0xd4, 0x1d, 0x8c, 0xd9, 0x8f, 0x00, 0xb2, 0x04, 0xe9, 0x80, 0x09, 0x98, 0xec, 0xf8, 0x42, 0x7e :: nat]"

fun Sum :: "Hash \<Rightarrow> string \<Rightarrow> string" where
  "Sum md5_New b = b @ md5_of_nothing"

record md5Obscurer =
  hash :: "Hash option"

definition Default :: md5Obscurer where
  "Default = \<lparr>hash = None\<rparr>"

text \<open>
  \<open>Obscure\<close> fills in the digest on first use (the returned obscurer) and returns a
  copy of the URL with the path replaced.
\<close>

definition Obscure :: "md5Obscurer \<Rightarrow> URL \<Rightarrow> URL \<times> md5Obscurer" where
  "Obscure ob url =
     (let h = (case hash ob of None \<Rightarrow> md5_New | Some h \<Rightarrow> h);
          obscuredPathBytes = Sum h (TrimLeft (Path url) ''/'');
          obscuredPath = Sprintf_x obscuredPathBytes;
          result = url\<lparr>Path := ''/'' @ obscuredPath\<rparr>
      in (result, ob\<lparr>hash := Some h\<rparr>))"

text \<open>
  The same function on an explicit heap of URL values, where a \<open>*url.URL\<close> is an
  index into the heap: \<open>result := *url\<close> allocates a new cell holding a copy, and
  \<open>&result\<close> is its address. A pointer outside the heap stands for \<open>nil\<close>, whose
  dereference panics (\<open>None\<close>).
\<close>

definition Obscure_heap :: "md5Obscurer \<Rightarrow> URL list \<Rightarrow> nat \<Rightarrow> (nat \<times> URL list \<times> md5Obscurer) option" where
  "Obscure_heap ob heap url =
     (if url < length heap
      then (let (result, ob') = Obscure ob (heap ! url)
            in Some (length heap, heap @ [result], ob'))
      else None)"

section \<open>The in-memory store (\<open>memoryStore\<close>, second file of middleware_test.go)\<close>

text \<open>
  \<open>memoryStore\<close> wraps a \<open>sync.Map\<close>, used here with string keys (the path of the
  obscured URL) and \<open>url.URL\<close> values (a copy of the original).
\<close>

record memoryStore =
  store :: "(string, URL) fmap"

definition DefaultStore :: memoryStore where
  "DefaultStore = \<lparr>store = fmempty\<rparr>"

definition Put :: "memoryStore \<Rightarrow> URL \<Rightarrow> URL \<Rightarrow> error option \<times> memoryStore" where
  "Put s obscured original =
     (case fmlookup (store s) (Path obscured) of
        None \<Rightarrow> (None, s\<lparr>store := fmupd (Path obscured) original (store s)\<rparr>)
      | Some _ \<Rightarrow> (None, s))"

text \<open>\<open>Get\<close> returns \<open>(&originalURL, true)\<close> as \<open>Some\<close> and \<open>(nil, false)\<close> as \<open>None\<close>.\<close>

definition Get :: "memoryStore \<Rightarrow> URL \<Rightarrow> URL option" where
  "Get s obscured = fmlookup (store s) (Path obscured)"

definition Remove :: "memoryStore \<Rightarrow> URL \<Rightarrow> error option \<times> memoryStore" where
  "Remove s obscured = (None, s\<lparr>store := fmdrop (Path obscured) (store s)\<rparr>)"

definition Clear :: "memoryStore \<Rightarrow> error option \<times> memoryStore" where
  "Clear s = (None, s\<lparr>store := fmempty\<rparr>)"

definition Size :: "memoryStore \<Rightarrow> nat" where
  "Size s = fcard (fmdom (store s))"

text \<open>
  \<open>Load\<close> ranges over a Go map; the list is the map's entries in the order the
  range statement happens to visit them.
\<close>

fun Load :: "memoryStore \<Rightarrow> (URL \<times> URL) list \<Rightarrow> error option \<times> memoryStore" where
  "Load s [] = (None, s)"
| "Load s ((obscured, unobscured) # mappings) =
     (case Put s obscured unobscured of
        (Some err, s') \<Rightarrow> (Some err, s')
      | (None, s') \<Rightarrow> Load s' mappings)"

section \<open>net/http: headers, the response writer, \<open>http.Error\<close>\<close>

text \<open>
  \<open>http.Header\<close> maps a header name to its values. The names the package uses
  (\<open>Location\<close>, \<open>Content-Location\<close>, \<open>Link\<close>, \<open>Content-Type\<close>,
  \<open>X-Content-Type-Options\<close>) are in canonical form already, so names are used as keys
  as they are.
\<close>

type_synonym Header = "(string, string list) fmap"

definition Header_Get :: "Header \<Rightarrow> string \<Rightarrow> string" where
  "Header_Get h key = (case fmlookup h key of None \<Rightarrow> [] | Some [] \<Rightarrow> [] | Some (v # _) \<Rightarrow> v)"

definition Header_Set :: "Header \<Rightarrow> string \<Rightarrow> string \<Rightarrow> Header" where
  "Header_Set h key v = fmupd key [v] h"

definition Header_Add :: "Header \<Rightarrow> string \<Rightarrow> string \<Rightarrow> Header" where
  "Header_Add h key v = fmupd key ((case fmlookup h key of None \<Rightarrow> [] | Some vs \<Rightarrow> vs) @ [v]) h"

definition Header_Del :: "Header \<Rightarrow> string \<Rightarrow> Header" where
  "Header_Del h key = fmdrop key h"

text \<open>
  A \<open>[]byte\<close> handed to \<open>Write\<close> is a view of memory that its caller may write
  again, and the handler's writer keeps the slice it is given (\<open>rw.body = body\<close>)
  without copying it. Three kinds of slices occur. \<open>Bytes b\<close> is a slice of the
  caller's own that holds \<open>b\<close> and is left alone. \<open>PrintBuffer b\<close> is what
  \<open>fmt.Fprint\<close>, \<open>fmt.Fprintln\<close> and \<open>fmt.Fprintf\<close> hand over: a slice of the
  print buffer of package \<open>fmt\<close>, which goes back to the pool of \<open>fmt\<close> when the call
  returns; it holds \<open>b\<close> until \<open>fmt\<close> prints again. \<open>Overwritten n\<close> is such a
  slice, of \<open>n\<close> bytes, after \<open>fmt\<close> has printed again: which bytes it holds then
  depends on whether the pool handed out the same buffer and is not determined here.
  One request is followed on its own; what other goroutines print is not modelled.
\<close>

datatype slice = Bytes string | PrintBuffer string | Overwritten nat

fun len :: "slice \<Rightarrow> nat" where
  "len (Bytes b) = length b"
| "len (PrintBuffer b) = length b"
| "len (Overwritten n) = n"

text \<open>What a slice is after package \<open>fmt\<close> has printed something else.\<close>

fun printed :: "slice \<Rightarrow> slice" where
  "printed (Bytes b) = Bytes b"
| "printed (PrintBuffer b) = Overwritten (length b)"
| "printed (Overwritten n) = Overwritten n"

text \<open>
  The \<open>http.ResponseWriter\<close> the server hands to the package: its live header map, the
  \<open>WriteHeader\<close> and \<open>Write\<close> calls it has received, in order, and the error its
  \<open>Write\<close> returns. It reads the bytes of a \<open>Write\<close> during the call:
  \<open>Write_call b\<close> is a write of the bytes \<open>b\<close>, \<open>Write_overwritten n\<close> a write of
  \<open>n\<close> bytes from a slice that was overwritten.
\<close>

datatype call = WriteHeader_call int | Write_call string | Write_overwritten nat

fun sent :: "slice \<Rightarrow> call" where
  "sent (Bytes b) = Write_call b"
| "sent (PrintBuffer b) = Write_call b"
| "sent (Overwritten n) = Write_overwritten n"

record http_ResponseWriter =
  Header :: Header
  calls :: "call list"
  Write_error :: "error option"

definition http_WriteHeader :: "http_ResponseWriter \<Rightarrow> int \<Rightarrow> http_ResponseWriter" where
  "http_WriteHeader w code = w\<lparr>calls := calls w @ [WriteHeader_call code]\<rparr>"

definition http_Write :: "http_ResponseWriter \<Rightarrow> slice \<Rightarrow> error option \<times> http_ResponseWriter" where
  "http_Write w b = (Write_error w, w\<lparr>calls := calls w @ [sent b]\<rparr>)"

text \<open>
  \<open>http.Error(w, error, code)\<close> sets two headers, writes the status and prints the
  message with a newline by \<open>fmt.Fprintln\<close> (one \<open>Write\<close>, of a slice of the print
  buffer). This is the call on the server's writer.
\<close>

definition http_Error :: "http_ResponseWriter \<Rightarrow> string \<Rightarrow> int \<Rightarrow> http_ResponseWriter" where
  "http_Error w msg code =
     (let w = w\<lparr>Header := Header_Set (Header w) ''Content-Type'' ''text/plain; charset=utf-8''\<rparr>;
          w = w\<lparr>Header := Header_Set (Header w) ''X-Content-Type-Options'' ''nosniff''\<rparr>;
          w = http_WriteHeader w code
      in snd (http_Write w (PrintBuffer (msg @ [CHR 0x0A]))))"

text \<open>
  What a wrapped \<open>http.Handler\<close> does with the writer it is given, as the list of its
  calls; the handler is a function of the request. \<open>CallWrite b\<close> is \<open>w.Write\<close> with
  a slice of the handler's own, \<open>CallFprint b\<close> a print of \<open>b\<close> to \<open>w\<close> by package
  \<open>fmt\<close>. Of the request the package reads the URL only.
\<close>

datatype action =
  SetHeader string string | AddHeader string string | DelHeader string
  | CallWriteHeader int | CallWrite string | CallFprint string

record Request =
  Method :: string
  URL :: URL

type_synonym Handler = "Request \<Rightarrow> action list"

section \<open>The response writer of the handler (\<open>responseWriter\<close>, second file of handler_test.go)\<close>

text \<open>
  \<open>responseWriter\<close> embeds the server's writer: \<open>Header()\<close> is the embedded writer's,
  \<open>Write\<close> and \<open>WriteHeader\<close> are overridden and only record. \<open>Write\<close> keeps the
  slice it is given, not a copy of its bytes; the \<open>nil\<close> body of a new writer is
  \<open>Bytes []\<close>.
\<close>

record responseWriter =
  ResponseWriter :: http_ResponseWriter
  body :: slice
  status :: int

definition Write :: "responseWriter \<Rightarrow> slice \<Rightarrow> responseWriter" where
  "Write rw b = rw\<lparr>body := b\<rparr>"

definition WriteHeader :: "responseWriter \<Rightarrow> int \<Rightarrow> responseWriter" where
  "WriteHeader rw code = rw\<lparr>status := code\<rparr>"

definition Do :: "responseWriter \<Rightarrow> error option \<times> responseWriter" where
  "Do rw =
     (let w = ResponseWriter rw;
          w = (if status rw \<noteq> 0 then http_WriteHeader w (status rw) else w);
          (err, w) = (if len (body rw) > 0 then http_Write w (body rw) else (None, w))
      in (err, rw\<lparr>ResponseWriter := w\<rparr>))"

definition set_Header :: "responseWriter \<Rightarrow> Header \<Rightarrow> responseWriter" where
  "set_Header rw h = rw\<lparr>ResponseWriter := (ResponseWriter rw)\<lparr>Header := h\<rparr>\<rparr>"

fun apply_action :: "responseWriter \<Rightarrow> action \<Rightarrow> responseWriter" where
  "apply_action rw (SetHeader k v) = set_Header rw (Header_Set (Header (ResponseWriter rw)) k v)"
| "apply_action rw (AddHeader k v) = set_Header rw (Header_Add (Header (ResponseWriter rw)) k v)"
| "apply_action rw (DelHeader k) = set_Header rw (Header_Del (Header (ResponseWriter rw)) k)"
| "apply_action rw (CallWriteHeader code) = WriteHeader rw code"
| "apply_action rw (CallWrite b) = Write rw (Bytes b)"
| "apply_action rw (CallFprint b) = Write rw (PrintBuffer b)"

text \<open>
  The recording writer after package \<open>fmt\<close> has printed something that did not go to
  it: a body that is a slice of the print buffer is overwritten.
\<close>

definition fmt_printed :: "responseWriter \<Rightarrow> responseWriter" where
  "fmt_printed rw = rw\<lparr>body := printed (body rw)\<rparr>"

text \<open>
  \<open>http.Error\<close> called on the recording writer: the body it records is the slice of
  the print buffer that \<open>fmt.Fprintln\<close> hands over.
\<close>

definition rw_Error :: "responseWriter \<Rightarrow> string \<Rightarrow> int \<Rightarrow> responseWriter" where
  "rw_Error rw msg code =
     (let rw = set_Header rw (Header_Set (Header (ResponseWriter rw)) ''Content-Type'' ''text/plain; charset=utf-8'');
          rw = set_Header rw (Header_Set (Header (ResponseWriter rw)) ''X-Content-Type-Options'' ''nosniff'');
          rw = WriteHeader rw code
      in Write rw (PrintBuffer (msg @ [CHR 0x0A])))"

section \<open>The handler (\<open>handler\<close>, unnamed/part_004)\<close>

type_synonym headerParser = "string \<Rightarrow> string"

definition defaultParseHeader :: headerParser where
  "defaultParseHeader header = header"

text \<open>
  \<open>parseLinkHeader\<close> matches the regular expression \<open>^<(.+)>.*\<close> and returns the
  first group. The dot of Go's \<open>regexp\<close> matches any byte but the newline, and \<open>.+\<close>
  is greedy: the match starts at the first byte, which has to be \<open><\<close>, and the group
  runs up to the last \<open>>\<close> of the first line; the group is not empty. Without a match
  the result is the empty string.
\<close>

definition parseLinkHeader :: headerParser where
  "parseLinkHeader header =
     (case header of
        [] \<Rightarrow> []
      | c # rest \<Rightarrow>
          if c \<noteq> CHR ''<'' then []
          else (case dropWhile (\<lambda>c. c \<noteq> CHR ''>'') (rev (takeWhile (\<lambda>c. c \<noteq> CHR 0x0A) rest)) of
                  [] \<Rightarrow> []
                | _ # found \<Rightarrow> rev found))"

definition ErrFailedRemoval :: error where
  "ErrFailedRemoval = Err ''obscurer: unable to remove URL form store''"

definition ErrLocationHeaderFailure :: error where
  "ErrLocationHeaderFailure = Err (''obscurer: unable to obscure '' @ [CHR 0x27] @ ''Location'' @ [CHR 0x27] @ '' header'')"

definition ErrContentLocationHeaderFailure :: error where
  "ErrContentLocationHeaderFailure = Err (''obscurer: unable to obscure '' @ [CHR 0x27] @ ''Content-Location'' @ [CHR 0x27] @ '' header'')"

definition ErrLinkHeaderFailure :: error where
  "ErrLinkHeaderFailure = Err (''obscurer: unable to obscure '' @ [CHR 0x27] @ ''Link'' @ [CHR 0x27] @ '' header'')"

text \<open>
  \<open>utf8.DecodeRuneInString\<close>, the width only: the number of bytes of the first UTF-8
  sequence, 1 for a byte that starts no valid sequence.
\<close>

definition rune_width :: "string \<Rightarrow> nat" where
  "rune_width s =
     (case s of
        [] \<Rightarrow> 0
      | s0 # t \<Rightarrow>
         (let b0 = (of_char s0 :: nat);
              sz = (if 0xC2 \<le> b0 \<and> b0 \<le> 0xDF then 2
                    else if 0xE0 \<le> b0 \<and> b0 \<le> 0xEF then 3
                    else if 0xF0 \<le> b0 \<and> b0 \<le> 0xF4 then 4 else 1);
              lo = (if b0 = 0xE0 then 0xA0 else if b0 = 0xF0 then 0x90 else 0x80);
              hi = (if b0 = 0xED then 0x9F else if b0 = 0xF4 then 0x8F else 0xBF);
              cont = (\<lambda>c. 0x80 \<le> (of_char c :: nat) \<and> (of_char c :: nat) \<le> 0xBF)
          in if sz = 1 \<or> length s < sz then 1
             else if (of_char (t ! 0) :: nat) < lo \<or> hi < (of_char (t ! 0) :: nat) then 1
             else if sz = 2 then 2
             else if \<not> cont (t ! 1) then 1
             else if sz = 3 then 3
             else if \<not> cont (t ! 2) then 1
             else 4))"

text \<open>
  \<open>strings.ReplaceAll(s, old, new)\<close>. For a non-empty \<open>old\<close> the occurrences are
  replaced from left to right without overlap; for an empty \<open>old\<close> the new string is
  put in front of the string and after each of its UTF-8 sequences.
\<close>

fun replace_from :: "string \<Rightarrow> string \<Rightarrow> string \<Rightarrow> string" where
  "replace_from [] old new = []"
| "replace_from (c # s) old new =
     (if prefix old (c # s) then new @ replace_from (drop (length old - 1) s) old new
      else c # replace_from s old new)"

fun insert_after_runes :: "string \<Rightarrow> string \<Rightarrow> string" where
  "insert_after_runes [] new = []"
| "insert_after_runes (c # s) new =
     take (rune_width (c # s)) (c # s) @ new @ insert_after_runes (drop (rune_width (c # s) - 1) s) new"

definition ReplaceAll :: "string \<Rightarrow> string \<Rightarrow> string \<Rightarrow> string" where
  "ReplaceAll s old new =
     (if old = new then s
      else if old = [] then new @ insert_after_runes s new
      else replace_from s old new)"

text \<open>
  The \<open>Store\<close> interface, as the handler uses it: an implementation is a record of
  operations on its own state. \<open>Get\<close> gives \<open>Some\<close> original for \<open>(original, true)\<close>.
  The \<open>Obscurer\<close> interface is its one function; the digest that \<open>md5Obscurer\<close>
  creates on first use does not change what it returns (lemma \<open>Obscure_any_state\<close>).
  The implementations of the repository return no \<open>nil\<close> URL, so the handler's test
  \<open>obscured != nil\<close> holds. \<open>md5Obscurer\<close> prints the path with \<open>fmt.Sprintf\<close>:
  the call of the obscurer counts as a print of package \<open>fmt\<close> (for an obscurer that
  does not print, \<open>Overwritten\<close> stands for bytes that are in fact unchanged, which it
  does not exclude). The operations of a store are taken not to print, as those of
  \<open>memoryStore\<close> do not.
\<close>

record 'st Store =
  Store_Put :: "'st \<Rightarrow> URL \<Rightarrow> URL \<Rightarrow> error option \<times> 'st"
  Store_Get :: "'st \<Rightarrow> URL \<Rightarrow> URL option"
  Store_Remove :: "'st \<Rightarrow> URL \<Rightarrow> error option \<times> 'st"

definition memoryStore_impl :: "memoryStore Store" where
  "memoryStore_impl = \<lparr>Store_Put = Put, Store_Get = Get, Store_Remove = Remove\<rparr>"

definition md5Obscurer_impl :: "URL \<Rightarrow> URL" where
  "md5Obscurer_impl url = fst (Obscure Default url)"

record 'st handler =
  h_handler :: Handler
  h_obscurer :: "URL \<Rightarrow> URL"
  h_store :: "'st Store"

definition NewHandler :: "(URL \<Rightarrow> URL) \<Rightarrow> 'st Store \<Rightarrow> Handler \<Rightarrow> 'st handler" where
  "NewHandler ob s h = \<lparr>h_handler = h, h_obscurer = ob, h_store = s\<rparr>"

text \<open>
  Of the failures of \<open>url.Parse\<close> one is built with \<open>fmt.Errorf\<close>, the invalid
  port; the others are constants or strings.
\<close>

definition Parse_prints :: "string \<Rightarrow> bool" where
  "Parse_prints rawurl \<longleftrightarrow> Parse rawurl = Inl (Err (''parse: '' @ url_error_text InvalidPort))"

text \<open>
  \<open>obscureHeader\<close> reads and writes the header map of the writer it is given (the
  recording writer's \<open>Header()\<close> is the server writer's) and the store. Where it
  prints, through \<open>url.Parse\<close> or the obscurer, a recorded body that is a slice of the
  print buffer is overwritten.
\<close>

definition obscureHeader ::
  "'st handler \<Rightarrow> 'st \<Rightarrow> responseWriter \<Rightarrow> string \<Rightarrow> headerParser \<Rightarrow> error option \<times> responseWriter \<times> 'st" where
  "obscureHeader h st w key parse =
     (let headers = Header (ResponseWriter w);
          header = Header_Get headers key;
          parsedHeader = parse header
      in if header = [] then (None, w, st)
         else (case Parse parsedHeader of
                 Inl err \<Rightarrow> (Some err, if Parse_prints parsedHeader then fmt_printed w else w, st)
               | Inr url \<Rightarrow>
                  (let obscured = h_obscurer h url;
                       w = fmt_printed w;
                       obscuredHeader = ReplaceAll header (String url) (String obscured);
                       w = set_Header w (Header_Set headers key obscuredHeader);
                       (err, st) = Store_Put (h_store h) st obscured url
                   in (err, w, st))))"

text \<open>The blocks of \<open>ServeHTTP\<close>, in the order of the source.\<close>

definition deobscure :: "'st handler \<Rightarrow> 'st \<Rightarrow> Request \<Rightarrow> Request" where
  "deobscure h st r =
     (case Store_Get (h_store h) st (URL r) of
        Some unobscured \<Rightarrow> r\<lparr>URL := unobscured\<rparr>
      | None \<Rightarrow> r)"

definition remove_missing :: "'st handler \<Rightarrow> Request \<Rightarrow> responseWriter \<times> 'st \<Rightarrow> responseWriter \<times> 'st" where
  "remove_missing h r = (\<lambda>(rw, st).
     if status rw = 404 then
       (case Store_Remove (h_store h) st (URL r) of
          (Some err, st) \<Rightarrow> (rw_Error rw (Error ErrFailedRemoval) 500, st)
        | (None, st) \<Rightarrow> (rw, st))
     else (rw, st))"

definition obscure_or_500 ::
  "'st handler \<Rightarrow> string \<Rightarrow> headerParser \<Rightarrow> error \<Rightarrow> responseWriter \<times> 'st \<Rightarrow> responseWriter \<times> 'st" where
  "obscure_or_500 h key parse failure = (\<lambda>(rw, st).
     case obscureHeader h st rw key parse of
       (Some err, rw, st) \<Rightarrow> (rw_Error rw (Error failure) 500, st)
     | (None, rw, st) \<Rightarrow> (rw, st))"

definition obscure_headers :: "'st handler \<Rightarrow> responseWriter \<times> 'st \<Rightarrow> responseWriter \<times> 'st" where
  "obscure_headers h rwst =
     (let rwst = obscure_or_500 h ''Location'' defaultParseHeader ErrLocationHeaderFailure rwst;
          rwst = obscure_or_500 h ''Content-Location'' defaultParseHeader ErrContentLocationHeaderFailure rwst;
          rwst = obscure_or_500 h ''Link'' parseLinkHeader ErrLinkHeaderFailure rwst
      in rwst)"

text \<open>The deferred function: it runs when \<open>ServeHTTP\<close> returns.\<close>

definition deferred_Do :: "responseWriter \<Rightarrow> responseWriter" where
  "deferred_Do rw =
     (case Do rw of
        (Some err, rw) \<Rightarrow> rw_Error rw (Error err) 500
      | (None, rw) \<Rightarrow> rw)"

definition ServeHTTP :: "'st handler \<Rightarrow> 'st \<Rightarrow> http_ResponseWriter \<Rightarrow> Request \<Rightarrow> http_ResponseWriter \<times> 'st" where
  "ServeHTTP h st w r =
     (let r = deobscure h st r;
          rw = \<lparr>ResponseWriter = w, body = Bytes [], status = 0\<rparr>;
          rw = foldl apply_action rw (h_handler h r);
          (rw, st) = remove_missing h r (rw, st);
          (rw, st) = obscure_headers h (rw, st);
          rw = deferred_Do rw
      in (ResponseWriter rw, st))"

section \<open>The middleware (middleware.go) and its response writer (unnamed/part_006)\<close>

text \<open>
  The response writer that \<open>middleware.go\<close> is written against (it calls
  \<open>rw.Flush()\<close>) has no body and an \<open>autoFlush\<close> switch; \<open>Write\<close> is the embedded
  writer's. Its fields carry the suffix \<open>_f\<close> here, the writer of the handler above
  having the same name in Go.
\<close>

record responseWriter_f =
  ResponseWriter_f :: http_ResponseWriter
  status_f :: int
  autoFlush :: bool

definition Flush :: "responseWriter_f \<Rightarrow> responseWriter_f" where
  "Flush rw = rw\<lparr>ResponseWriter_f := http_WriteHeader (ResponseWriter_f rw) (status_f rw)\<rparr>"

definition WriteHeader_f :: "responseWriter_f \<Rightarrow> int \<Rightarrow> responseWriter_f" where
  "WriteHeader_f rw code =
     (let rw = rw\<lparr>status_f := code\<rparr>
      in if autoFlush rw then Flush rw else rw)"

definition on_writer :: "(http_ResponseWriter \<Rightarrow> http_ResponseWriter) \<Rightarrow> responseWriter_f \<Rightarrow> responseWriter_f" where
  "on_writer f rw = rw\<lparr>ResponseWriter_f := f (ResponseWriter_f rw)\<rparr>"

fun apply_action_f :: "responseWriter_f \<Rightarrow> action \<Rightarrow> responseWriter_f" where
  "apply_action_f rw (SetHeader k v) = on_writer (\<lambda>w. w\<lparr>Header := Header_Set (Header w) k v\<rparr>) rw"
| "apply_action_f rw (AddHeader k v) = on_writer (\<lambda>w. w\<lparr>Header := Header_Add (Header w) k v\<rparr>) rw"
| "apply_action_f rw (DelHeader k) = on_writer (\<lambda>w. w\<lparr>Header := Header_Del (Header w) k\<rparr>) rw"
| "apply_action_f rw (CallWriteHeader code) = WriteHeader_f rw code"
| "apply_action_f rw (CallWrite b) = on_writer (\<lambda>w. snd (http_Write w (Bytes b))) rw"
| "apply_action_f rw (CallFprint b) = on_writer (\<lambda>w. snd (http_Write w (PrintBuffer b))) rw"

record 'st middleware =
  m_next :: Handler
  m_obscurer :: "URL \<Rightarrow> URL"
  m_store :: "'st Store"

definition NewMiddleware :: "(URL \<Rightarrow> URL) \<Rightarrow> 'st Store \<Rightarrow> Handler \<Rightarrow> 'st middleware" where
  "NewMiddleware ob s h = \<lparr>m_next = h, m_obscurer = ob, m_store = s\<rparr>"

definition m_obscureHeader ::
  "'st middleware \<Rightarrow> 'st \<Rightarrow> http_ResponseWriter \<Rightarrow> string \<Rightarrow> headerParser \<Rightarrow> error option \<times> http_ResponseWriter \<times> 'st" where
  "m_obscureHeader m st w key parse =
     (let h = Header w;
          header = Header_Get h key;
          parsedHeader = parse header
      in if header = [] then (None, w, st)
         else (case Parse parsedHeader of
                 Inl err \<Rightarrow> (Some err, w, st)
               | Inr url \<Rightarrow>
                  (let obscured = m_obscurer m url;
                       obscuredHeader = ReplaceAll header (String url) (String obscured);
                       w = w\<lparr>Header := Header_Set h key obscuredHeader\<rparr>;
                       (err, st) = Store_Put (m_store m) st obscured url
                   in (err, w, st))))"

definition m_obscure_or_500 ::
  "'st middleware \<Rightarrow> string \<Rightarrow> headerParser \<Rightarrow> error \<Rightarrow> http_ResponseWriter \<times> 'st \<Rightarrow> http_ResponseWriter \<times> 'st" where
  "m_obscure_or_500 m key parse failure = (\<lambda>(w, st).
     case m_obscureHeader m st w key parse of
       (Some err, w, st) \<Rightarrow> (http_Error w (Error failure) 500, st)
     | (None, w, st) \<Rightarrow> (w, st))"

text \<open>
  In \<open>middleware.ServeHTTP\<close> the headers are obscured on \<open>w\<close>, the writer that
  \<open>rw\<close> embeds, and \<open>rw.Flush()\<close> is deferred.
\<close>

definition middleware_ServeHTTP ::
  "'st middleware \<Rightarrow> 'st \<Rightarrow> http_ResponseWriter \<Rightarrow> Request \<Rightarrow> http_ResponseWriter \<times> 'st" where
  "middleware_ServeHTTP m st w r =
     (let rw = \<lparr>ResponseWriter_f = w, status_f = 0, autoFlush = False\<rparr>;
          rw = foldl apply_action_f rw (m_next m r);
          wst = (ResponseWriter_f rw, st);
          wst = m_obscure_or_500 m ''Location'' defaultParseHeader ErrLocationHeaderFailure wst;
          wst = m_obscure_or_500 m ''Content-Location'' defaultParseHeader ErrContentLocationHeaderFailure wst;
          (w, st) = m_obscure_or_500 m ''Link'' parseLinkHeader ErrLinkHeaderFailure wst;
          rw = Flush (rw\<lparr>ResponseWriter_f := w\<rparr>)
      in (ResponseWriter_f rw, st))"

section \<open>Values of the package's tests\<close>

text \<open>
  The URLs and the server writer the tests of the package work with:
  \<open>http://www.example.com/this/is/the/way/\<close>, \<open>/hey/der\<close>, two pages of one
  resource, and a recorder nothing has been written to.
\<close>

definition url_way :: URL where
  "url_way = new_URL\<lparr>Scheme := ''http'', Host := ''www.example.com'', Path := ''/this/is/the/way/''\<rparr>"

definition url_hey_der :: URL where
  "url_hey_der = new_URL\<lparr>Path := ''/hey/der''\<rparr>"

definition url_page :: "string \<Rightarrow> URL" where
  "url_page n = new_URL\<lparr>Path := ''/items'', RawQuery := ''page='' @ n\<rparr>"

definition NewRecorder :: http_ResponseWriter where
  "NewRecorder = \<lparr>Header = fmempty, calls = [], Write_error = None\<rparr>"

definition NewRequest :: "string \<Rightarrow> URL \<Rightarrow> Request" where
  "NewRequest method url = \<lparr>Method = method, URL = url\<rparr>"

text \<open>
  The invalid URL of the tests, \<open>"example.com\foo"\<close>: in a Go string literal \<open>\f\<close>
  is the form feed, a control character.
\<close>

definition invalid_url :: string where
  "invalid_url = ''example.com'' @ [CHR 0x0C] @ ''oo''"



definition two_headers :: Handler where
  "two_headers r =
     [AddHeader ''Location'' invalid_url,
      AddHeader ''Content-Location'' ''/hey/der'',
      CallWriteHeader 200]"

definition link_without_brackets :: Handler where
  "link_without_brackets r = [AddHeader ''Link'' ''foo'', CallWriteHeader 200]"

definition silent :: Handler where
  "silent r = []"



definition two_headers_recorded :: responseWriter where
  "two_headers_recorded =
     \<lparr>ResponseWriter = NewRecorder\<lparr>Header :=
         fmupd ''Content-Location'' [''/hey/der''] (fmupd ''Location'' [invalid_url] fmempty)\<rparr>,
      body = Bytes [], status = 200\<rparr>"

definition two_headers_obscured :: responseWriter where
  "two_headers_obscured =
     set_Header two_headers_recorded
       (Header_Set (Header (ResponseWriter two_headers_recorded)) ''Content-Location''
          ''/6865792f646572d41d8cd98f00b204e9800998ecf8427e'')"

definition store_hey_der :: memoryStore where
  "store_hey_der = \<lparr>store = fmupd ''/6865792f646572d41d8cd98f00b204e9800998ecf8427e'' url_hey_der fmempty\<rparr>"

definition url_not_the_way :: URL where
  "url_not_the_way = new_URL\<lparr>Path := ''/this/is/not/the/way''\<rparr>"

text \<open>
  \<open>http.NotFound\<close>, the answer of a \<open>ServeMux\<close> without a matching route:
  \<open>http.Error(w, "404 page not found", 404)\<close>.
\<close>

definition NotFound :: Handler where
  "NotFound r =
     [SetHeader ''Content-Type'' ''text/plain; charset=utf-8'',
      SetHeader ''X-Content-Type-Options'' ''nosniff'',
      CallWriteHeader 404,
      CallFprint (''404 page not found'' @ [CHR 0x0A])]"

section \<open>Properties of the obscurer\<close>

lemma Sprintf_x_append: "Sprintf_x (a @ b) = Sprintf_x a @ Sprintf_x b"
  by (simp add: Sprintf_x_def)

lemma Sprintf_x_md5_of_nothing: "Sprintf_x md5_of_nothing = ''d41d8cd98f00b204e9800998ecf8427e''"
  by (simp add: Sprintf_x_def md5_of_nothing_def hexdigit_def)

lemma length_Sprintf_x: "length (Sprintf_x b) = 2 * length b"
  by (induction b) (simp_all add: Sprintf_x_def)

text \<open>
  What \<open>Obscure\<close> returns, whatever the state of the obscurer: the path is the
  hexadecimal rendering of the trimmed path itself, followed by the 32 digits of the
  checksum of the empty input. \<open>Sum\<close> appends a checksum to its argument; the path
  is never written into the digest.
\<close>

lemma Obscure_result:
  "fst (Obscure ob url) =
     url\<lparr>Path := ''/'' @ Sprintf_x (TrimLeft (Path url) ''/'') @ ''d41d8cd98f00b204e9800998ecf8427e''\<rparr>"
proof -
  have "(case hash ob of None \<Rightarrow> md5_New | Some h \<Rightarrow> h) = md5_New"
    by (cases "hash ob") (auto intro: Hash.exhaust)
  then show ?thesis
    by (simp add: Obscure_def Let_def Sprintf_x_append Sprintf_x_md5_of_nothing)
qed

lemma Obscure_any_state: "fst (Obscure ob url) = fst (Obscure Default url)"
  by (simp add: Obscure_result)

lemma Obscure_state: "snd (Obscure ob url) = \<lparr>hash = Some md5_New\<rparr>"
proof -
  have "(case hash ob of None \<Rightarrow> md5_New | Some h \<Rightarrow> h) = md5_New"
    by (cases "hash ob") (auto intro: Hash.exhaust)
  then show ?thesis
    by (simp add: Obscure_def Let_def)
qed

lemma md5Obscurer_impl_result:
  "md5Obscurer_impl url =
     url\<lparr>Path := ''/'' @ Sprintf_x (TrimLeft (Path url) ''/'') @ ''d41d8cd98f00b204e9800998ecf8427e''\<rparr>"
  by (simp add: md5Obscurer_impl_def Obscure_result)

lemma length_Obscure_Path:
  "length (Path (fst (Obscure ob url))) = 33 + 2 * length (TrimLeft (Path url) ''/'')"
  by (simp add: Obscure_result length_Sprintf_x)

text \<open>
  C2 says that the obscured path is \<open>/\<close> followed by the hexadecimal rendering of the
  hash of the trimmed input path, of the same length for all inputs, and that it does not
  reveal the original path. The code does otherwise: for the paths \<open>/a\<close> and \<open>/ab\<close>
  the obscured paths are the hexadecimal digits of \<open>a\<close> (61) and of \<open>ab\<close> (6162),
  each followed by the checksum of the empty input; they have 35 and 37 characters.
\<close>

theorem Obscure_output_grows_with_path:
  "Path (fst (Obscure Default (new_URL\<lparr>Path := ''/a''\<rparr>))) = ''/61d41d8cd98f00b204e9800998ecf8427e''
   \<and> Path (fst (Obscure Default (new_URL\<lparr>Path := ''/ab''\<rparr>))) = ''/6162d41d8cd98f00b204e9800998ecf8427e''
   \<and> length (Path (fst (Obscure Default (new_URL\<lparr>Path := ''/a''\<rparr>)))) = 35
   \<and> length (Path (fst (Obscure Default (new_URL\<lparr>Path := ''/ab''\<rparr>)))) = 37"
  by (simp add: Obscure_result new_URL_def TrimLeft_def Sprintf_x_def hexdigit_def)

lemma hexdigit_in: "hexdigit n \<in> set ''0123456789abcdef''"
proof -
  have "n mod 16 < length ''0123456789abcdef''" by simp
  then show ?thesis unfolding hexdigit_def by (rule nth_mem)
qed

lemma Sprintf_x_no_slash: "CHR ''/'' \<notin> set (Sprintf_x b)"
proof -
  have "set (Sprintf_x b) \<subseteq> set ''0123456789abcdef''"
    using hexdigit_in by (auto simp add: Sprintf_x_def)
  then show ?thesis
    by auto
qed

lemma Sprintf_x_unfolded:
  "Sprintf_x b = concat (map (\<lambda>c. [''0123456789abcdef'' ! (of_char c div 16),
                                     ''0123456789abcdef'' ! (of_char c mod 16)]) b)"
proof -
  have "(of_char c :: nat) div 16 mod 16 = of_char c div 16" for c :: char
  proof -
    have "(of_char c :: nat) < 256" by (rule nat_of_char_less_256)
    then have "(of_char c :: nat) div 16 < 16" by (simp add: less_mult_imp_div_less)
    then show ?thesis by simp
  qed
  then show ?thesis
    by (simp add: Sprintf_x_def hexdigit_def)
qed

text \<open>
  C8. For every URL \<open>u\<close>, \<open>Obscure(u)\<close> returns a new URL value whose scheme, host,
  query and fragment are those of \<open>u\<close>; only the path is replaced, by a function of
  the path of \<open>u\<close> alone (the leading slashes are stripped before the transformation
  and a single slash is put in front after it), and \<open>u\<close> itself is not changed. On the
  heap: for a valid pointer \<open>url\<close> the call returns a fresh address, every cell of
  the old heap is as it was, and the new cell is the old URL but for its path. The new
  path is written out in full: a slash, then two hexadecimal digits for each byte of the
  old path without its leading slashes, then the 32 digits of the checksum of the empty
  input. It has no slash but the first, and one more slash in front of the old path
  gives the same new path.
\<close>

theorem Obscure_copies_all_but_path:
  assumes "url < length heap"
  shows "case Obscure_heap ob heap url of
           None \<Rightarrow> False
         | Some (result, heap', ob') \<Rightarrow>
             result \<noteq> url \<and> result < length heap'
             \<and> take (length heap) heap' = heap
             \<and> heap' ! url = heap ! url
             \<and> heap' ! result = (heap ! url)\<lparr>Path := Path (heap' ! result)\<rparr>
             \<and> Path (heap' ! result) =
                 CHR ''/'' # concat (map (\<lambda>c. [''0123456789abcdef'' ! (of_char c div 16),
                                                 ''0123456789abcdef'' ! (of_char c mod 16)])
                                       (dropWhile (\<lambda>c. c = CHR ''/'') (Path (heap ! url))))
                   @ ''d41d8cd98f00b204e9800998ecf8427e''
             \<and> CHR ''/'' \<notin> set (tl (Path (heap' ! result)))
             \<and> Path (fst (Obscure ob ((heap ! url)\<lparr>Path := CHR ''/'' # Path (heap ! url)\<rparr>)))
                 = Path (heap' ! result)
             \<and> Scheme (heap' ! result) = Scheme (heap ! url)
             \<and> Host (heap' ! result) = Host (heap ! url)
             \<and> RawQuery (heap' ! result) = RawQuery (heap ! url)
             \<and> ForceQuery (heap' ! result) = ForceQuery (heap ! url)
             \<and> Fragment (heap' ! result) = Fragment (heap ! url)
             \<and> User (heap' ! result) = User (heap ! url)
             \<and> Opaque (heap' ! result) = Opaque (heap ! url)"
proof -
  let ?u = "heap ! url"
  let ?trimmed = "dropWhile (\<lambda>c. c = CHR ''/'') (Path ?u)"
  obtain r ob' where ob: "Obscure ob ?u = (r, ob')"
    by (cases "Obscure ob ?u")
  have t: "TrimLeft p ''/'' = dropWhile (\<lambda>c. c = CHR ''/'') p" for p
    by (simp add: TrimLeft_def)
  have r: "r = ?u\<lparr>Path := CHR ''/'' # Sprintf_x ?trimmed @ ''d41d8cd98f00b204e9800998ecf8427e''\<rparr>"
    using Obscure_result [of ob ?u] ob by (simp add: t)
  have s: "CHR ''/'' \<notin> set (Sprintf_x ?trimmed @ ''d41d8cd98f00b204e9800998ecf8427e'')"
    using Sprintf_x_no_slash [of ?trimmed] by simp
  have m: "Path (fst (Obscure ob (?u\<lparr>Path := CHR ''/'' # Path ?u\<rparr>)))
             = CHR ''/'' # Sprintf_x ?trimmed @ ''d41d8cd98f00b204e9800998ecf8427e''"
    by (simp add: Obscure_result t)
  show ?thesis
    using assms s m
    by (simp add: Obscure_heap_def ob r nth_append Sprintf_x_unfolded [symmetric])
qed

text \<open>
  The theorem at the URL of \<open>TestObscure\<close>, the only cell of the heap: the result is
  at address 1, cell 0 still holds the input, and the new path starts with the digits of
  \<open>t\<close> (74), the leading slash of \<open>/this/is/the/way/\<close> being stripped and its last
  one (2f) kept.
\<close>

theorem Obscure_copies_all_but_path_witness:
  "(0::nat) < length [url_way]
   \<and> Obscure_heap Default [url_way] 0 =
       Some (1, [url_way,
                 url_way\<lparr>Path := ''/746869732f69732f7468652f7761792fd41d8cd98f00b204e9800998ecf8427e''\<rparr>],
             \<lparr>hash = Some md5_New\<rparr>)"
proof -
  have h: "(0::nat) < length [url_way]" by simp
  obtain result heap' ob' where s: "Obscure_heap Default [url_way] 0 = Some (result, heap', ob')"
    using Obscure_copies_all_but_path [OF h, of Default] by (auto split: option.splits)
  have e: "result = 1" "heap' = [url_way] @ [fst (Obscure Default url_way)]" "ob' = snd (Obscure Default url_way)"
    using s by (auto simp add: Obscure_heap_def split: prod.splits)
  note c = Obscure_copies_all_but_path [OF h, of Default, unfolded s option.case prod.case]
  note f = c [THEN conjunct2, THEN conjunct2, THEN conjunct2, THEN conjunct2, THEN conjunct1]
  note p = c [THEN conjunct2, THEN conjunct2, THEN conjunct2, THEN conjunct2, THEN conjunct2, THEN conjunct1]
  have "Path (heap' ! result) = ''/746869732f69732f7468652f7761792fd41d8cd98f00b204e9800998ecf8427e''"
    unfolding p by (simp add: url_way_def new_URL_def)
  with f have "heap' ! result = url_way\<lparr>Path := ''/746869732f69732f7468652f7761792fd41d8cd98f00b204e9800998ecf8427e''\<rparr>"
    by simp
  then have "fst (Obscure Default url_way) = url_way\<lparr>Path := ''/746869732f69732f7468652f7761792fd41d8cd98f00b204e9800998ecf8427e''\<rparr>"
    using e by simp
  then show ?thesis
    using s e h by (simp add: Obscure_state)
qed

section \<open>Properties of the store\<close>

text \<open>
  C10. The in-memory store keys a mapping by the path of the obscured URL alone:
  \<open>Put\<close>, \<open>Get\<close> and \<open>Remove\<close> do the same for two obscured URLs with one path,
  whatever their scheme, host, query and fragment; what is put under one is found under
  the other, and removing under one removes it for the other.
\<close>

theorem store_keyed_by_path_only:
  assumes "Path k1 = Path k2"
  shows "Put s k1 original = Put s k2 original
         \<and> Get s k1 = Get s k2
         \<and> Remove s k1 = Remove s k2
         \<and> Get (snd (Put s k1 original)) k2 = Some (case Get s k1 of None \<Rightarrow> original | Some first \<Rightarrow> first)
         \<and> Get (snd (Remove s k1)) k2 = None"
  using assms by (simp add: Put_def Get_def Remove_def split: option.splits)

theorem store_keyed_by_path_only_witness:
  "Path url_way = Path (url_way\<lparr>Scheme := ''https'', Host := ''other.example'', RawQuery := ''q=1'', Fragment := ''top''\<rparr>)
   \<and> Get (snd (Put DefaultStore url_way url_hey_der))
          (url_way\<lparr>Scheme := ''https'', Host := ''other.example'', RawQuery := ''q=1'', Fragment := ''top''\<rparr>)
       = Some url_hey_der
   \<and> Get (snd (Remove (snd (Put DefaultStore url_way url_hey_der)) url_way))
          (url_way\<lparr>Scheme := ''https'', Host := ''other.example'', RawQuery := ''q=1'', Fragment := ''top''\<rparr>)
       = None"
proof -
  let ?k2 = "url_way\<lparr>Scheme := ''https'', Host := ''other.example'', RawQuery := ''q=1'', Fragment := ''top''\<rparr>"
  have h: "Path url_way = Path ?k2" by simp
  have e: "Get DefaultStore url_way = None" by (simp add: Get_def DefaultStore_def)
  have "Get (snd (Put DefaultStore url_way url_hey_der)) ?k2 = Some url_hey_der"
    using store_keyed_by_path_only [OF h, of DefaultStore url_hey_der, THEN conjunct2, THEN conjunct2,
            THEN conjunct2, THEN conjunct1] e by simp
  moreover have "Get (snd (Remove (snd (Put DefaultStore url_way url_hey_der)) url_way)) ?k2 = None"
    using store_keyed_by_path_only [OF h, of "snd (Put DefaultStore url_way url_hey_der)"] by blast
  ultimately show ?thesis using h by blast
qed

text \<open>
  C6 as it is stated (after \<open>Put(K, O1)\<close> has returned no error, a second
  \<open>Put(K, O2)\<close> leaves \<open>O1\<close> stored under \<open>K\<close>) fails on a store that held a
  mapping under \<open>K\<close> before: both calls return no error and the store still holds the
  older original.
\<close>

theorem second_Put_keeps_older_original_counterexample:
  "fst (Put (snd (Put DefaultStore url_way (url_page ''0''))) url_way (url_page ''1'')) = None
   \<and> fst (Put (snd (Put (snd (Put DefaultStore url_way (url_page ''0''))) url_way (url_page ''1'')))
              url_way (url_page ''2'')) = None
   \<and> Get (snd (Put (snd (Put (snd (Put DefaultStore url_way (url_page ''0''))) url_way (url_page ''1'')))
              url_way (url_page ''2''))) url_way = Some (url_page ''0'')
   \<and> url_page ''0'' \<noteq> url_page ''1''"
  by (simp add: Put_def Get_def DefaultStore_def url_page_def new_URL_def)

text \<open>
  C6, amended. For every store, every obscured key \<open>K\<close> and originals \<open>O1\<close>,
  \<open>O2\<close>: a \<open>Put(K, O2)\<close> after \<open>Put(K, O1)\<close> returns no error and leaves the store
  as the first \<open>Put\<close> left it; when no mapping was stored under the path of \<open>K\<close>
  before the first \<open>Put\<close>, the stored original is \<open>O1\<close>, also when \<open>O2\<close> differs.
\<close>

theorem second_Put_is_no_op:
  "fst (Put (snd (Put s K O1)) K O2) = None
   \<and> snd (Put (snd (Put s K O1)) K O2) = snd (Put s K O1)
   \<and> (Get s K = None \<longrightarrow> Get (snd (Put (snd (Put s K O1)) K O2)) K = Some O1)"
  by (simp add: Put_def Get_def split: option.splits)

theorem second_Put_is_no_op_witness:
  "Get DefaultStore url_way = None
   \<and> Get (snd (Put (snd (Put DefaultStore url_way (url_page ''1''))) url_way (url_page ''2''))) url_way
       = Some (url_page ''1'')"
proof -
  have h: "Get DefaultStore url_way = None" by (simp add: Get_def DefaultStore_def)
  from second_Put_is_no_op [of DefaultStore url_way "url_page ''1''" "url_page ''2''"] h
  show ?thesis by blast
qed

text \<open>
  C5 as it is stated (after \<open>Put(obscure(P), P)\<close> has returned no error,
  \<open>Get(obscure(P))\<close> returns \<open>P\<close> in all its components) fails on a store that
  holds a mapping under the path of \<open>obscure(P)\<close> already. Two pages of one resource
  have one obscured path, the query not being part of it: after the first page is put,
  putting the second returns no error, and the lookup of the second obscured URL returns
  the first page.
\<close>

theorem Get_after_Put_counterexample:
  "fst (Put (snd (Put DefaultStore (fst (Obscure Default (url_page ''1''))) (url_page ''1'')))
            (fst (Obscure Default (url_page ''2''))) (url_page ''2'')) = None
   \<and> Get (snd (Put (snd (Put DefaultStore (fst (Obscure Default (url_page ''1''))) (url_page ''1'')))
                 (fst (Obscure Default (url_page ''2''))) (url_page ''2'')))
          (fst (Obscure Default (url_page ''2''))) = Some (url_page ''1'')
   \<and> url_page ''1'' \<noteq> url_page ''2''"
  by (simp add: Put_def Get_def DefaultStore_def Obscure_def Default_def url_page_def new_URL_def)

text \<open>
  C5, amended. For every URL \<open>P\<close> and every store that holds no mapping under the
  path of \<open>obscure(P)\<close>: \<open>Put(obscure(P), P)\<close> returns no error, and after it
  \<open>Get(obscure(P))\<close> returns \<open>(P, true)\<close>, \<open>P\<close> in all its components.
\<close>

theorem Get_after_first_Put:
  assumes "Get s (fst (Obscure ob P)) = None"
  shows "fst (Put s (fst (Obscure ob P)) P) = None
         \<and> Get (snd (Put s (fst (Obscure ob P)) P)) (fst (Obscure ob P)) = Some P"
  using assms by (simp add: Put_def Get_def)

theorem Get_after_first_Put_witness:
  "Get DefaultStore (fst (Obscure Default (url_way\<lparr>RawQuery := ''a=b'', Fragment := ''top''\<rparr>))) = None
   \<and> Get (snd (Put DefaultStore (fst (Obscure Default (url_way\<lparr>RawQuery := ''a=b'', Fragment := ''top''\<rparr>)))
                 (url_way\<lparr>RawQuery := ''a=b'', Fragment := ''top''\<rparr>)))
          (fst (Obscure Default (url_way\<lparr>RawQuery := ''a=b'', Fragment := ''top''\<rparr>)))
       = Some (url_way\<lparr>RawQuery := ''a=b'', Fragment := ''top''\<rparr>)"
proof -
  have h: "Get DefaultStore (fst (Obscure Default (url_way\<lparr>RawQuery := ''a=b'', Fragment := ''top''\<rparr>))) = None"
    by (simp add: Get_def DefaultStore_def)
  from Get_after_first_Put [OF h] h show ?thesis by blast
qed

section \<open>Properties of the handler\<close>

lemmas handler_defs =
  ServeHTTP_def deobscure_def remove_missing_def obscure_headers_def obscure_or_500_def
  obscureHeader_def deferred_Do_def Do_def rw_Error_def WriteHeader_def Write_def set_Header_def
  fmt_printed_def NewHandler_def http_WriteHeader_def http_Write_def
  Header_Get_def Header_Set_def Header_Add_def Header_Del_def
  defaultParseHeader_def parseLinkHeader_def
  memoryStore_impl_def Put_def Get_def Remove_def DefaultStore_def
  NewRecorder_def NewRequest_def

lemmas url_defs =
  Parse_def url_parse_def split_sep_def stringContainsCTLByte_def getScheme_def ToLower_def
  setPath_def setFragment_def escape_def shouldEscape_def isAlnum_def in_range_def
  String_def EscapedPath_def EscapedFragment_def validEncoded_def upperhex_def
  ReplaceAll_def

lemma rune_width_ascii: "(of_char c :: nat) < 0x80 \<Longrightarrow> rune_width (c # s) = 1"
  by (simp add: rune_width_def Let_def)

lemma Header_Get_Set_other: "k \<noteq> key \<Longrightarrow> Header_Get (Header_Set h k v) key = Header_Get h key"
  by (simp add: Header_Get_def Header_Set_def)

lemma rw_Error_fields:
  "status (rw_Error rw m c) = c"
  "body (rw_Error rw m c) = PrintBuffer (m @ [CHR 0x0A])"
  "Header (ResponseWriter (rw_Error rw m c)) =
     Header_Set (Header_Set (Header (ResponseWriter rw)) ''Content-Type'' ''text/plain; charset=utf-8'')
        ''X-Content-Type-Options'' ''nosniff''"
  "calls (ResponseWriter (rw_Error rw m c)) = calls (ResponseWriter rw)"
  "Write_error (ResponseWriter (rw_Error rw m c)) = Write_error (ResponseWriter rw)"
  by (simp_all add: rw_Error_def Let_def Write_def WriteHeader_def set_Header_def)

lemma set_Header_fields:
  "status (set_Header rw h) = status rw"
  "body (set_Header rw h) = body rw"
  "Header (ResponseWriter (set_Header rw h)) = h"
  "calls (ResponseWriter (set_Header rw h)) = calls (ResponseWriter rw)"
  "Write_error (ResponseWriter (set_Header rw h)) = Write_error (ResponseWriter rw)"
  by (simp_all add: set_Header_def)

lemma fmt_printed_fields:
  "status (fmt_printed rw) = status rw"
  "body (fmt_printed rw) = printed (body rw)"
  "ResponseWriter (fmt_printed rw) = ResponseWriter rw"
  by (simp_all add: fmt_printed_def)

lemma printed_twice: "printed (printed b) = printed b"
  by (cases b) simp_all

lemma fmt_printed_twice: "fmt_printed (fmt_printed rw) = fmt_printed rw"
  by (simp add: fmt_printed_def printed_twice)

lemma fmt_printed_set_Header: "fmt_printed (set_Header rw hs) = set_Header (fmt_printed rw) hs"
  by (simp add: fmt_printed_def set_Header_def)

lemma responseWriter_eqI:
  "status a = status b \<Longrightarrow> body a = body b \<Longrightarrow> Header (ResponseWriter a) = Header (ResponseWriter b)
   \<Longrightarrow> calls (ResponseWriter a) = calls (ResponseWriter b)
   \<Longrightarrow> Write_error (ResponseWriter a) = Write_error (ResponseWriter b) \<Longrightarrow> (a :: responseWriter) = b"
  by (cases a, cases b, cases "ResponseWriter a", cases "ResponseWriter b") simp

text \<open>A later \<open>http.Error\<close> on the recording writer overwrites an earlier one.\<close>

lemma rw_Error_twice: "rw_Error (rw_Error rw m1 c1) m2 c2 = rw_Error rw m2 c2"
proof (rule responseWriter_eqI)
  have ne: "''Content-Type'' \<noteq> ''X-Content-Type-Options''" by simp
  show "Header (ResponseWriter (rw_Error (rw_Error rw m1 c1) m2 c2)) = Header (ResponseWriter (rw_Error rw m2 c2))"
    by (simp add: rw_Error_fields Header_Set_def fmupd_reorder_neq [OF ne])
qed (simp_all add: rw_Error_fields)

lemma rw_Error_set_Header:
  assumes "key \<noteq> ''Content-Type''" "key \<noteq> ''X-Content-Type-Options''"
  shows "set_Header (rw_Error rw m c) (Header_Set (Header (ResponseWriter (rw_Error rw m c))) key v)
       = rw_Error (set_Header rw (Header_Set (Header (ResponseWriter rw)) key v)) m c"
proof (rule responseWriter_eqI)
  show "Header (ResponseWriter (set_Header (rw_Error rw m c) (Header_Set (Header (ResponseWriter (rw_Error rw m c))) key v)))
      = Header (ResponseWriter (rw_Error (set_Header rw (Header_Set (Header (ResponseWriter rw)) key v)) m c))"
    using assms
    by (simp add: rw_Error_fields set_Header_fields Header_Set_def
          fmupd_reorder_neq [of key "''Content-Type''"] fmupd_reorder_neq [of key "''X-Content-Type-Options''"])
qed (simp_all add: rw_Error_fields set_Header_fields)

text \<open>
  \<open>http.Error\<close> replaces the body, whatever had become of it.
\<close>

lemma rw_Error_fmt_printed: "rw_Error (fmt_printed rw) m c = rw_Error rw m c"
  by (rule responseWriter_eqI) (simp_all add: rw_Error_fields fmt_printed_fields)

text \<open>
  What \<open>obscureHeader\<close> does with a writer whose body \<open>fmt\<close> has overwritten: the
  same as without, and the body stays overwritten.
\<close>

lemma obscureHeader_fmt_printed:
  assumes "obscureHeader h st rw key parse = (e, rw', st')"
  shows "obscureHeader h st (fmt_printed rw) key parse = (e, fmt_printed rw', st')"
proof (cases "Header_Get (Header (ResponseWriter rw)) key = []")
  case True
  then show ?thesis using assms by (simp add: obscureHeader_def fmt_printed_fields Let_def)
next
  case False
  show ?thesis
  proof (cases "Parse (parse (Header_Get (Header (ResponseWriter rw)) key))")
    case (Inl err)
    then show ?thesis using False assms
      by (auto simp add: obscureHeader_def fmt_printed_fields fmt_printed_twice Let_def)
  next
    case (Inr url)
    then show ?thesis using False assms
      by (auto simp add: obscureHeader_def fmt_printed_fields fmt_printed_twice fmt_printed_set_Header
            Let_def split: prod.splits)
  qed
qed

text \<open>
  An earlier \<open>http.Error\<close> does not change what \<open>obscureHeader\<close> does for another
  header: the same result, the same rewrite, the same store. The body that the
  \<open>http.Error\<close> recorded is overwritten when \<open>obscureHeader\<close> prints; when it
  returns no error, it has printed exactly when the header is not empty.
\<close>

lemma obscureHeader_rw_Error:
  assumes "key \<noteq> ''Content-Type''" "key \<noteq> ''X-Content-Type-Options''"
    and "obscureHeader h st rw key parse = (e, rw', st')"
  shows "\<exists>p. obscureHeader h st (rw_Error rw m c) key parse
               = (e, if p then fmt_printed (rw_Error rw' m c) else rw_Error rw' m c, st')
             \<and> (e = None \<longrightarrow> p = (Header_Get (Header (ResponseWriter rw)) key \<noteq> []))"
proof -
  let ?v = "Header_Get (Header (ResponseWriter rw)) key"
  have g: "Header_Get (Header (ResponseWriter (rw_Error rw m c))) key = ?v"
    using assms(1,2) by (simp add: rw_Error_fields Header_Get_Set_other)
  show ?thesis
  proof (cases "?v = []")
    case True
    have r: "e = None" "rw' = rw" "st' = st"
      using assms(3) True by (simp_all add: obscureHeader_def Let_def)
    have "obscureHeader h st (rw_Error rw m c) key parse = (e, rw_Error rw' m c, st')"
      using True by (simp add: obscureHeader_def g r Let_def)
    then show ?thesis using True by (intro exI [of _ False]) simp
  next
    case False
    show ?thesis
    proof (cases "Parse (parse ?v)")
      case (Inl err)
      have r: "e = Some err" "rw' = (if Parse_prints (parse ?v) then fmt_printed rw else rw)" "st' = st"
        using assms(3) False Inl by (simp_all add: obscureHeader_def Let_def)
      have "obscureHeader h st (rw_Error rw m c) key parse
              = (e, if Parse_prints (parse ?v) then fmt_printed (rw_Error rw' m c) else rw_Error rw' m c, st')"
        using False Inl by (simp add: obscureHeader_def g r Let_def rw_Error_fmt_printed)
      then show ?thesis using r(1)
        by (intro exI [of _ "Parse_prints (parse ?v)"]) simp
    next
      case (Inr url)
      obtain err s where p: "Store_Put (h_store h) st (h_obscurer h url) url = (err, s)"
        by (cases "Store_Put (h_store h) st (h_obscurer h url) url")
      let ?hs = "\<lambda>w. Header_Set (Header (ResponseWriter w)) key (ReplaceAll ?v (String url) (String (h_obscurer h url)))"
      have r: "e = err" "rw' = set_Header (fmt_printed rw) (?hs rw)" "st' = s"
        using assms(3) False Inr p by (simp_all add: obscureHeader_def Let_def)
      have "obscureHeader h st (rw_Error rw m c) key parse
              = (e, set_Header (fmt_printed (rw_Error rw m c)) (?hs (rw_Error rw m c)), st')"
        using False Inr p by (simp add: obscureHeader_def g r Let_def)
      also have "set_Header (fmt_printed (rw_Error rw m c)) (?hs (rw_Error rw m c))
                   = fmt_printed (set_Header (rw_Error rw m c) (?hs (rw_Error rw m c)))"
        by (simp add: fmt_printed_set_Header)
      also have "set_Header (rw_Error rw m c) (?hs (rw_Error rw m c)) = rw_Error (set_Header rw (?hs rw)) m c"
        by (rule rw_Error_set_Header [OF assms(1,2)])
      also have "rw_Error (set_Header rw (?hs rw)) m c = rw_Error rw' m c"
        by (simp add: r fmt_printed_set_Header [symmetric] rw_Error_fmt_printed)
      finally have "obscureHeader h st (rw_Error rw m c) key parse = (e, fmt_printed (rw_Error rw' m c), st')" .
      then show ?thesis using False by (intro exI [of _ True]) simp
    qed
  qed
qed

lemma handler_fields [simp]:
  "h_handler (NewHandler ob s wrapped) = wrapped"
  "h_obscurer (NewHandler ob s wrapped) = ob"
  "h_store (NewHandler ob s wrapped) = s"
  by (simp_all add: NewHandler_def)

subsection \<open>What \<open>net/url\<close> and the obscurer give for the values of the tests\<close>

lemma Parse_invalid_url: "Parse invalid_url = Inl (Err ''parse: net/url: invalid control character in URL'')"
  by (simp add: Parse_def url_parse_def split_sep_def invalid_url_def stringContainsCTLByte_def)

lemma Parse_empty: "Parse [] = Inr new_URL"
  by (simp add: url_defs new_URL_def)

lemma Parse_hey_der: "Parse ''/hey/der'' = Inr url_hey_der"
  by (simp add: url_defs url_hey_der_def new_URL_def)

lemma String_new_URL: "String new_URL = []"
  by (simp add: url_defs new_URL_def)

lemma String_hey_der: "String url_hey_der = ''/hey/der''"
  by (simp add: url_defs url_hey_der_def new_URL_def)

lemma obscured_new_URL:
  "md5Obscurer_impl new_URL = new_URL\<lparr>Path := ''/d41d8cd98f00b204e9800998ecf8427e''\<rparr>"
  by (simp add: md5Obscurer_impl_result new_URL_def TrimLeft_def Sprintf_x_def)

lemma obscured_hey_der:
  "md5Obscurer_impl url_hey_der = new_URL\<lparr>Path := ''/6865792f646572d41d8cd98f00b204e9800998ecf8427e''\<rparr>"
  by (simp add: md5Obscurer_impl_result url_hey_der_def new_URL_def TrimLeft_def Sprintf_x_def hexdigit_def)

lemma String_obscured_new_URL:
  "String (new_URL\<lparr>Path := ''/d41d8cd98f00b204e9800998ecf8427e''\<rparr>) = ''/d41d8cd98f00b204e9800998ecf8427e''"
  by (simp add: url_defs new_URL_def)

lemma String_obscured_hey_der:
  "String (new_URL\<lparr>Path := ''/6865792f646572d41d8cd98f00b204e9800998ecf8427e''\<rparr>)
     = ''/6865792f646572d41d8cd98f00b204e9800998ecf8427e''"
  by (simp add: url_defs new_URL_def)

lemma ReplaceAll_foo:
  "ReplaceAll ''foo'' [] ''/d41d8cd98f00b204e9800998ecf8427e''
     = ''/d41d8cd98f00b204e9800998ecf8427ef/d41d8cd98f00b204e9800998ecf8427eo/d41d8cd98f00b204e9800998ecf8427eo/d41d8cd98f00b204e9800998ecf8427e''"
  by (simp add: ReplaceAll_def rune_width_ascii)

lemma ReplaceAll_whole: "old \<noteq> [] \<Longrightarrow> ReplaceAll old old new = new"
  by (cases old) (simp_all add: ReplaceAll_def)

subsection \<open>Removal on 404\<close>

text \<open>
  When the request URL is found in the store, \<open>r.URL\<close> is replaced by the original, and
  the removal on 404 is made under the path of the original: the mapping under the
  obscured path stays, whenever the two paths differ.
\<close>

lemma remove_missing_after_deobscure:
  assumes "Get st (URL r) = Some original" "Path original \<noteq> Path (URL r)"
  shows "Get (snd (remove_missing (NewHandler ob memoryStore_impl wrapped)
                     (deobscure (NewHandler ob memoryStore_impl wrapped) st r) (rw, st))) (URL r)
         = Some original"
  using assms
  by (simp add: remove_missing_def deobscure_def memoryStore_impl_def Get_def Remove_def)

text \<open>
  C1 says that after a request to an obscured URL with a mapping in the store, to which
  the wrapped handler answers 404, a \<open>Get\<close> for the obscured URL finds nothing. The
  code does otherwise. The store holds the mapping of the obscured form of
  \<open>/this/is/not/the/way\<close>; the request asks for the obscured URL; no route matches the
  original path, and the wrapped handler answers 404, which is what the client receives.
  After \<open>ServeHTTP\<close> the store still returns the original for the obscured URL.
\<close>

theorem not_found_keeps_mapping:
  "Get (snd (Load DefaultStore [(md5Obscurer_impl url_not_the_way, url_not_the_way)]))
       (md5Obscurer_impl url_not_the_way) = Some url_not_the_way
   \<and> calls (fst (ServeHTTP (NewHandler md5Obscurer_impl memoryStore_impl NotFound)
                   (snd (Load DefaultStore [(md5Obscurer_impl url_not_the_way, url_not_the_way)]))
                   NewRecorder (NewRequest ''GET'' (md5Obscurer_impl url_not_the_way))))
       = [WriteHeader_call 404, Write_call (''404 page not found'' @ [CHR 0x0A])]
   \<and> Get (snd (ServeHTTP (NewHandler md5Obscurer_impl memoryStore_impl NotFound)
                   (snd (Load DefaultStore [(md5Obscurer_impl url_not_the_way, url_not_the_way)]))
                   NewRecorder (NewRequest ''GET'' (md5Obscurer_impl url_not_the_way))))
         (md5Obscurer_impl url_not_the_way) = Some url_not_the_way"
  by (simp add: handler_defs url_defs md5Obscurer_impl_result new_URL_def TrimLeft_def Sprintf_x_def
        hexdigit_def Let_def NotFound_def url_not_the_way_def)

subsection \<open>Headers that are absent or empty\<close>

text \<open>
  C9. For each of the three headers (for any header name and parser): when the header
  is absent from the recorded response or its value is empty, \<open>obscureHeader\<close> returns
  no error and leaves the writer, with its header map, and the store as they are.
\<close>

theorem obscureHeader_skips_empty_header:
  assumes "fmlookup (Header (ResponseWriter w)) key = None \<or> Header_Get (Header (ResponseWriter w)) key = []"
  shows "obscureHeader h st w key parse = (None, w, st)"
proof -
  have "Header_Get (Header (ResponseWriter w)) key = []"
    using assms by (auto simp add: Header_Get_def)
  then show ?thesis
    by (simp add: obscureHeader_def Let_def)
qed

text \<open>
  The theorem for a response whose \<open>Location\<close> is present and empty and whose
  \<open>Link\<close> is absent.
\<close>

theorem obscureHeader_skips_empty_header_witness:
  "Header_Get (Header (ResponseWriter
       \<lparr>ResponseWriter = NewRecorder\<lparr>Header := fmupd ''Location'' [[]] fmempty\<rparr>, body = Bytes [], status = 200\<rparr>))
       ''Location'' = []
   \<and> fmlookup (Header (ResponseWriter
       \<lparr>ResponseWriter = NewRecorder\<lparr>Header := fmupd ''Location'' [[]] fmempty\<rparr>, body = Bytes [], status = 200\<rparr>))
       ''Link'' = None
   \<and> obscureHeader (NewHandler md5Obscurer_impl memoryStore_impl silent) DefaultStore
       \<lparr>ResponseWriter = NewRecorder\<lparr>Header := fmupd ''Location'' [[]] fmempty\<rparr>, body = Bytes [], status = 200\<rparr>
       ''Location'' defaultParseHeader
      = (None, \<lparr>ResponseWriter = NewRecorder\<lparr>Header := fmupd ''Location'' [[]] fmempty\<rparr>, body = Bytes [], status = 200\<rparr>,
         DefaultStore)
   \<and> obscureHeader (NewHandler md5Obscurer_impl memoryStore_impl silent) DefaultStore
       \<lparr>ResponseWriter = NewRecorder\<lparr>Header := fmupd ''Location'' [[]] fmempty\<rparr>, body = Bytes [], status = 200\<rparr>
       ''Link'' parseLinkHeader
      = (None, \<lparr>ResponseWriter = NewRecorder\<lparr>Header := fmupd ''Location'' [[]] fmempty\<rparr>, body = Bytes [], status = 200\<rparr>,
         DefaultStore)"
proof -
  let ?w = "\<lparr>ResponseWriter = NewRecorder\<lparr>Header := fmupd ''Location'' [[]] fmempty\<rparr>, body = Bytes [], status = 200\<rparr>"
  have a: "Header_Get (Header (ResponseWriter ?w)) ''Location'' = []"
    by (simp add: Header_Get_def)
  have b: "fmlookup (Header (ResponseWriter ?w)) ''Link'' = None"
    by simp
  have c: "obscureHeader (NewHandler md5Obscurer_impl memoryStore_impl silent) DefaultStore ?w
             ''Location'' defaultParseHeader = (None, ?w, DefaultStore)"
    by (rule obscureHeader_skips_empty_header [OF disjI2, OF a])
  have d: "obscureHeader (NewHandler md5Obscurer_impl memoryStore_impl silent) DefaultStore ?w
             ''Link'' parseLinkHeader = (None, ?w, DefaultStore)"
    by (rule obscureHeader_skips_empty_header [OF disjI1, OF b])
  from a b c d show ?thesis by (intro conjI)
qed

subsection \<open>The order of the three headers and the failure that is reported\<close>






text \<open>
  The three steps of \<open>obscure_headers\<close> in terms of the three evaluations of
  \<open>obscureHeader\<close> that take place when no failure is answered.
\<close>

lemma obscure_headers_chain:
  "obscure_headers h (rw, st) =
     (case obscureHeader h st rw ''Location'' defaultParseHeader of (e1, rw1, st1) \<Rightarrow>
      case obscureHeader h st1 rw1 ''Content-Location'' defaultParseHeader of (e2, rw2, st2) \<Rightarrow>
      case obscureHeader h st2 rw2 ''Link'' parseLinkHeader of (e3, rw3, st3) \<Rightarrow>
        (if e3 \<noteq> None then rw_Error rw3 (Error ErrLinkHeaderFailure) 500
         else if e2 \<noteq> None then
           (if Header_Get (Header (ResponseWriter rw2)) ''Link'' = []
            then rw_Error rw3 (Error ErrContentLocationHeaderFailure) 500
            else fmt_printed (rw_Error rw3 (Error ErrContentLocationHeaderFailure) 500))
         else if e1 \<noteq> None then
           (if Header_Get (Header (ResponseWriter rw1)) ''Content-Location'' = []
               \<and> Header_Get (Header (ResponseWriter rw2)) ''Link'' = []
            then rw_Error rw3 (Error ErrLocationHeaderFailure) 500
            else fmt_printed (rw_Error rw3 (Error ErrLocationHeaderFailure) 500))
         else rw3, st3))"
proof -
  obtain e1 rw1 st1 where s1: "obscureHeader h st rw ''Location'' defaultParseHeader = (e1, rw1, st1)"
    by (cases "obscureHeader h st rw ''Location'' defaultParseHeader")
  obtain e2 rw2 st2 where s2: "obscureHeader h st1 rw1 ''Content-Location'' defaultParseHeader = (e2, rw2, st2)"
    by (cases "obscureHeader h st1 rw1 ''Content-Location'' defaultParseHeader")
  obtain e3 rw3 st3 where s3: "obscureHeader h st2 rw2 ''Link'' parseLinkHeader = (e3, rw3, st3)"
    by (cases "obscureHeader h st2 rw2 ''Link'' parseLinkHeader")
  let ?cl = "Header_Get (Header (ResponseWriter rw1)) ''Content-Location''"
  let ?link = "Header_Get (Header (ResponseWriter rw2)) ''Link''"
  have third: "\<And>m c. \<exists>p. obscureHeader h st2 (rw_Error rw2 m c) ''Link'' parseLinkHeader
                  = (e3, if p then fmt_printed (rw_Error rw3 m c) else rw_Error rw3 m c, st3)
                \<and> (e3 = None \<longrightarrow> p = (?link \<noteq> []))"
    by (rule obscureHeader_rw_Error [OF _ _ s3]) simp_all
  have second: "\<And>m c. \<exists>p. obscureHeader h st1 (rw_Error rw1 m c) ''Content-Location'' defaultParseHeader
                  = (e2, if p then fmt_printed (rw_Error rw2 m c) else rw_Error rw2 m c, st2)
                \<and> (e2 = None \<longrightarrow> p = (?cl \<noteq> []))"
    by (rule obscureHeader_rw_Error [OF _ _ s2]) simp_all
  text \<open>The answer to a failure of \<open>Link\<close> replaces whatever was recorded.\<close>
  have link_fails: "obscure_or_500 h ''Link'' parseLinkHeader ErrLinkHeaderFailure (w, st2)
                      = (rw_Error rw3 (Error ErrLinkHeaderFailure) 500, st3)"
    if ne: "e3 \<noteq> None" and w: "w = rw2 \<or> (\<exists>m c. w = rw_Error rw2 m c \<or> w = fmt_printed (rw_Error rw2 m c))" for w
  proof -
    obtain err where e: "e3 = Some err" using ne by auto
    from w consider "w = rw2" | m c where "w = rw_Error rw2 m c"
      | m c where "w = fmt_printed (rw_Error rw2 m c)" by auto
    then show ?thesis
    proof cases
      case 1
      then show ?thesis by (simp add: obscure_or_500_def s3 e)
    next
      case 2
      obtain p where "obscureHeader h st2 (rw_Error rw2 m c) ''Link'' parseLinkHeader
                        = (e3, if p then fmt_printed (rw_Error rw3 m c) else rw_Error rw3 m c, st3)"
        using third [of m c] by auto
      then show ?thesis
        by (simp add: obscure_or_500_def 2 e rw_Error_fmt_printed rw_Error_twice)
    next
      case 3
      obtain p where "obscureHeader h st2 (rw_Error rw2 m c) ''Link'' parseLinkHeader
                        = (e3, if p then fmt_printed (rw_Error rw3 m c) else rw_Error rw3 m c, st3)"
        using third [of m c] by auto
      then have "obscureHeader h st2 (fmt_printed (rw_Error rw2 m c)) ''Link'' parseLinkHeader
                   = (e3, fmt_printed (rw_Error rw3 m c), st3)"
        by (simp add: obscureHeader_fmt_printed fmt_printed_twice)
      then show ?thesis
        by (simp add: obscure_or_500_def 3 e rw_Error_fmt_printed rw_Error_twice)
    qed
  qed
  text \<open>Without a failure of \<open>Link\<close>, an earlier message is overwritten when \<open>Link\<close> has a value.\<close>
  have link_ok: "obscure_or_500 h ''Link'' parseLinkHeader ErrLinkHeaderFailure (rw_Error rw2 m c, st2)
                   = (if ?link = [] then rw_Error rw3 m c else fmt_printed (rw_Error rw3 m c), st3)"
    if n: "e3 = None" for m c
  proof -
    obtain p where "obscureHeader h st2 (rw_Error rw2 m c) ''Link'' parseLinkHeader
                      = (e3, if p then fmt_printed (rw_Error rw3 m c) else rw_Error rw3 m c, st3)"
        and "p = (?link \<noteq> [])"
      using third [of m c] n by auto
    then show ?thesis by (simp add: obscure_or_500_def n)
  qed
  have link_ok_printed:
    "obscure_or_500 h ''Link'' parseLinkHeader ErrLinkHeaderFailure (fmt_printed (rw_Error rw2 m c), st2)
       = (fmt_printed (rw_Error rw3 m c), st3)"
    if n: "e3 = None" for m c
  proof -
    obtain p where "obscureHeader h st2 (rw_Error rw2 m c) ''Link'' parseLinkHeader
                      = (e3, if p then fmt_printed (rw_Error rw3 m c) else rw_Error rw3 m c, st3)"
      using third [of m c] by auto
    then have "obscureHeader h st2 (fmt_printed (rw_Error rw2 m c)) ''Link'' parseLinkHeader
                 = (e3, fmt_printed (rw_Error rw3 m c), st3)"
      by (simp add: obscureHeader_fmt_printed fmt_printed_twice)
    then show ?thesis by (simp add: obscure_or_500_def n)
  qed
  show ?thesis
  proof (cases e1)
    case None
    have a: "obscure_or_500 h ''Location'' defaultParseHeader ErrLocationHeaderFailure (rw, st) = (rw1, st1)"
      by (simp add: obscure_or_500_def s1 None)
    show ?thesis
    proof (cases e2)
      case n2: None
      have b: "obscure_or_500 h ''Content-Location'' defaultParseHeader ErrContentLocationHeaderFailure (rw1, st1)
                 = (rw2, st2)"
        by (simp add: obscure_or_500_def s2 n2)
      show ?thesis
      proof (cases e3)
        case n3: None
        then show ?thesis by (simp add: obscure_headers_def a b obscure_or_500_def s1 s2 s3 None n2)
      next
        case (Some err)
        then show ?thesis by (simp add: obscure_headers_def a b link_fails s1 s2 s3 None n2)
      qed
    next
      case (Some err2)
      have b: "obscure_or_500 h ''Content-Location'' defaultParseHeader ErrContentLocationHeaderFailure (rw1, st1)
                 = (rw_Error rw2 (Error ErrContentLocationHeaderFailure) 500, st2)"
        by (simp add: obscure_or_500_def s2 Some)
      show ?thesis
      proof (cases e3)
        case n3: None
        then show ?thesis by (simp add: obscure_headers_def a b link_ok s1 s2 s3 None Some)
      next
        case s: (Some err)
        have "obscure_or_500 h ''Link'' parseLinkHeader ErrLinkHeaderFailure
                (rw_Error rw2 (Error ErrContentLocationHeaderFailure) 500, st2)
              = (rw_Error rw3 (Error ErrLinkHeaderFailure) 500, st3)"
          by (rule link_fails) (auto simp add: s)
        then show ?thesis by (simp add: obscure_headers_def a b s1 s2 s3 None Some s)
      qed
    qed
  next
    case (Some err1)
    have a: "obscure_or_500 h ''Location'' defaultParseHeader ErrLocationHeaderFailure (rw, st)
               = (rw_Error rw1 (Error ErrLocationHeaderFailure) 500, st1)"
      by (simp add: obscure_or_500_def s1 Some)
    obtain p where p: "obscureHeader h st1 (rw_Error rw1 (Error ErrLocationHeaderFailure) 500)
                          ''Content-Location'' defaultParseHeader
                        = (e2, if p then fmt_printed (rw_Error rw2 (Error ErrLocationHeaderFailure) 500)
                               else rw_Error rw2 (Error ErrLocationHeaderFailure) 500, st2)"
        and p_iff: "e2 = None \<longrightarrow> p = (?cl \<noteq> [])"
      using second [of "Error ErrLocationHeaderFailure" 500] by auto
    show ?thesis
    proof (cases e2)
      case n2: None
      have b: "obscure_or_500 h ''Content-Location'' defaultParseHeader ErrContentLocationHeaderFailure
                 (rw_Error rw1 (Error ErrLocationHeaderFailure) 500, st1)
               = (if ?cl = [] then rw_Error rw2 (Error ErrLocationHeaderFailure) 500
                  else fmt_printed (rw_Error rw2 (Error ErrLocationHeaderFailure) 500), st2)"
        using p p_iff by (simp add: obscure_or_500_def n2)
      show ?thesis
      proof (cases e3)
        case n3: None
        then show ?thesis
          by (simp add: obscure_headers_def a b link_ok link_ok_printed s1 s2 s3 Some n2)
      next
        case s: (Some err)
        have "obscure_or_500 h ''Link'' parseLinkHeader ErrLinkHeaderFailure
                (if ?cl = [] then rw_Error rw2 (Error ErrLocationHeaderFailure) 500
                 else fmt_printed (rw_Error rw2 (Error ErrLocationHeaderFailure) 500), st2)
              = (rw_Error rw3 (Error ErrLinkHeaderFailure) 500, st3)"
          by (rule link_fails) (auto simp add: s)
        then show ?thesis by (simp add: obscure_headers_def a b s1 s2 s3 Some n2 s)
      qed
    next
      case s2': (Some err2)
      have b: "obscure_or_500 h ''Content-Location'' defaultParseHeader ErrContentLocationHeaderFailure
                 (rw_Error rw1 (Error ErrLocationHeaderFailure) 500, st1)
               = (rw_Error rw2 (Error ErrContentLocationHeaderFailure) 500, st2)"
        using p by (simp add: obscure_or_500_def s2' rw_Error_fmt_printed rw_Error_twice)
      show ?thesis
      proof (cases e3)
        case n3: None
        then show ?thesis by (simp add: obscure_headers_def a b link_ok s1 s2 s3 Some s2')
      next
        case s: (Some err)
        have "obscure_or_500 h ''Link'' parseLinkHeader ErrLinkHeaderFailure
                (rw_Error rw2 (Error ErrContentLocationHeaderFailure) 500, st2)
              = (rw_Error rw3 (Error ErrLinkHeaderFailure) 500, st3)"
          by (rule link_fails) (auto simp add: s)
        then show ?thesis by (simp add: obscure_headers_def a b s1 s2 s3 Some s2' s)
      qed
    qed
  qed
qed



lemma two_headers_run:
  "foldl apply_action \<lparr>ResponseWriter = NewRecorder, body = Bytes [], status = 0\<rparr> (two_headers r)
     = two_headers_recorded"
  by (simp add: two_headers_def two_headers_recorded_def WriteHeader_def set_Header_def
        Header_Add_def NewRecorder_def)

lemma two_headers_Location:
  "obscureHeader (NewHandler md5Obscurer_impl memoryStore_impl two_headers) DefaultStore
     two_headers_recorded ''Location'' defaultParseHeader
   = (Some (Err ''parse: net/url: invalid control character in URL''), two_headers_recorded, DefaultStore)"
proof -
  have "Header_Get (Header (ResponseWriter two_headers_recorded)) ''Location'' = invalid_url"
    by (simp add: two_headers_recorded_def Header_Get_def)
  moreover have "invalid_url \<noteq> []" by (simp add: invalid_url_def)
  ultimately show ?thesis
    by (simp add: obscureHeader_def Let_def defaultParseHeader_def Parse_invalid_url Parse_prints_def
          url_error_text.simps)
qed

lemma two_headers_Content_Location:
  "obscureHeader (NewHandler md5Obscurer_impl memoryStore_impl two_headers) DefaultStore
     two_headers_recorded ''Content-Location'' defaultParseHeader
   = (None, two_headers_obscured, store_hey_der)"
proof -
  have "Header_Get (Header (ResponseWriter two_headers_recorded)) ''Content-Location'' = ''/hey/der''"
    by (simp add: two_headers_recorded_def Header_Get_def)
  moreover have "fmt_printed two_headers_recorded = two_headers_recorded"
    by (simp add: fmt_printed_def two_headers_recorded_def)
  ultimately show ?thesis
    by (simp add: obscureHeader_def Let_def defaultParseHeader_def Parse_hey_der String_hey_der
          obscured_hey_der String_obscured_hey_der ReplaceAll_whole two_headers_obscured_def
          store_hey_der_def memoryStore_impl_def Put_def DefaultStore_def)
qed

lemma two_headers_Link:
  "obscureHeader (NewHandler md5Obscurer_impl memoryStore_impl two_headers) store_hey_der
     two_headers_obscured ''Link'' parseLinkHeader
   = (None, two_headers_obscured, store_hey_der)"
proof -
  have "Header_Get (Header (ResponseWriter two_headers_obscured)) ''Link'' = []"
    by (simp add: two_headers_obscured_def two_headers_recorded_def Header_Get_def
          set_Header_def Header_Set_def)
  then show ?thesis
    by (simp add: obscureHeader_def Let_def)
qed



text \<open>What the client of \<open>two_headers\<close> is sent: the status 500 and 46 overwritten bytes.\<close>

lemma two_headers_ServeHTTP:
  "calls (fst (ServeHTTP (NewHandler md5Obscurer_impl memoryStore_impl two_headers) DefaultStore NewRecorder
      (NewRequest ''GET'' url_way)))
   = [WriteHeader_call 500, Write_overwritten 46]"
proof -
  let ?h = "NewHandler md5Obscurer_impl memoryStore_impl two_headers"
  have d: "deobscure ?h DefaultStore (NewRequest ''GET'' url_way) = NewRequest ''GET'' url_way"
    by (simp add: deobscure_def memoryStore_impl_def Get_def DefaultStore_def)
  have r: "remove_missing ?h (NewRequest ''GET'' url_way) (two_headers_recorded, DefaultStore)
             = (two_headers_recorded, DefaultStore)"
    by (simp add: remove_missing_def two_headers_recorded_def)
  have o: "obscure_headers ?h (two_headers_recorded, DefaultStore)
             = (fmt_printed (rw_Error two_headers_obscured (Error ErrLocationHeaderFailure) 500), store_hey_der)"
    by (simp add: obscure_headers_chain two_headers_Location two_headers_Content_Location two_headers_Link)
       (simp add: two_headers_recorded_def Header_Get_def)
  have c: "calls (ResponseWriter (deferred_Do (fmt_printed (rw_Error two_headers_obscured (Error ErrLocationHeaderFailure) 500))))
             = [WriteHeader_call 500, Write_overwritten 46]"
    by (simp add: deferred_Do_def Do_def fmt_printed_fields rw_Error_fields http_WriteHeader_def http_Write_def
          two_headers_obscured_def two_headers_recorded_def set_Header_def NewRecorder_def
          ErrLocationHeaderFailure_def Let_def)
  show ?thesis
    by (simp add: ServeHTTP_def d Let_def two_headers_run r o c)
qed

subsection \<open>The \<open>Link\<close> header\<close>

lemma takeWhile_neq_append:
  "a \<notin> set xs \<Longrightarrow> takeWhile (\<lambda>c. c \<noteq> a) (xs @ ys) = xs @ takeWhile (\<lambda>c. c \<noteq> a) ys"
  by (induction xs) auto

lemma dropWhile_neq_append:
  "a \<notin> set xs \<Longrightarrow> dropWhile (\<lambda>c. c \<noteq> a) (xs @ ys) = dropWhile (\<lambda>c. c \<noteq> a) ys"
  by (induction xs) auto

lemma takeWhile_neq_notin: "a \<notin> set (takeWhile (\<lambda>c. c \<noteq> a) xs)"
  by (induction xs) auto

lemma dropWhile_neq_Cons: "dropWhile (\<lambda>c. c \<noteq> a) xs = y # ys \<Longrightarrow> y = a"
  by (induction xs) (auto split: if_splits)

text \<open>
  \<open>parseLinkHeader\<close> against the pattern \<open>^<(.+)>.*\<close>. A value of the form
  \<open><found>rest\<close>, with no newline in \<open>found\<close> and no \<open>>\<close> on what is left of the
  first line, gives \<open>found\<close>; a value that does not start with \<open><\<close> gives the empty
  string; and every non-empty result comes from a value of that form: the \<open>>\<close> that
  ends the group is the last one of the first line.
\<close>

lemma parseLinkHeader_greedy:
  assumes "CHR 0x0A \<notin> set found"
    and "CHR ''>'' \<notin> set (takeWhile (\<lambda>c. c \<noteq> CHR 0x0A) rest)"
  shows "parseLinkHeader (''<'' @ found @ ''>'' @ rest) = found"
proof -
  have t: "takeWhile (\<lambda>c. c \<noteq> CHR 0x0A) (found @ CHR ''>'' # rest)
             = found @ CHR ''>'' # takeWhile (\<lambda>c. c \<noteq> CHR 0x0A) rest"
    using assms(1) by (simp add: takeWhile_neq_append)
  have d: "dropWhile (\<lambda>c. c \<noteq> CHR ''>'') (rev (takeWhile (\<lambda>c. c \<noteq> CHR 0x0A) rest) @ CHR ''>'' # rev found)
             = CHR ''>'' # rev found"
    using assms(2) by (simp add: dropWhile_neq_append)
  show ?thesis
    by (simp add: parseLinkHeader_def t d)
qed

lemma parseLinkHeader_no_bracket:
  "\<not> prefix ''<'' header \<Longrightarrow> parseLinkHeader header = []"
  by (cases header) (simp_all add: parseLinkHeader_def)

lemma parseLinkHeader_is_match:
  assumes "parseLinkHeader header \<noteq> []"
  shows "\<exists>rest. header = ''<'' @ parseLinkHeader header @ ''>'' @ rest
           \<and> CHR 0x0A \<notin> set (parseLinkHeader header)
           \<and> CHR ''>'' \<notin> set (takeWhile (\<lambda>c. c \<noteq> CHR 0x0A) rest)"
proof -
  obtain body where h: "header = CHR ''<'' # body"
    using assms by (cases header) (auto simp add: parseLinkHeader_def split: if_splits)
  define line where "line = takeWhile (\<lambda>c. c \<noteq> CHR 0x0A) body"
  define after where "after = dropWhile (\<lambda>c. c \<noteq> CHR 0x0A) body"
  define tail where "tail = rev (takeWhile (\<lambda>c. c \<noteq> CHR ''>'') (rev line))"
  obtain x found where d: "dropWhile (\<lambda>c. c \<noteq> CHR ''>'') (rev line) = x # found"
    using assms h unfolding line_def
    by (cases "dropWhile (\<lambda>c. c \<noteq> CHR ''>'') (rev (takeWhile (\<lambda>c. c \<noteq> CHR 0x0A) body))")
       (auto simp add: parseLinkHeader_def)
  have p: "parseLinkHeader header = rev found"
    using h d by (simp add: parseLinkHeader_def line_def)
  have x: "x = CHR ''>''"
    using d by (rule dropWhile_neq_Cons)
  have "rev line = rev tail @ CHR ''>'' # found"
    using takeWhile_dropWhile_id [of "\<lambda>c. c \<noteq> CHR ''>''" "rev line"] d x by (simp add: tail_def)
  then have "rev (rev line) = rev (rev tail @ CHR ''>'' # found)"
    by simp
  then have l: "line = rev found @ CHR ''>'' # tail"
    by simp
  have b: "body = line @ after"
    by (simp add: line_def after_def)
  have nl: "CHR 0x0A \<notin> set line"
    unfolding line_def by (rule takeWhile_neq_notin)
  have nf: "CHR 0x0A \<notin> set (rev found)" and nt: "CHR 0x0A \<notin> set tail"
    using nl l by auto
  have "CHR ''>'' \<notin> set (takeWhile (\<lambda>c. c \<noteq> CHR ''>'') (rev line))"
    by (rule takeWhile_neq_notin)
  then have gt: "CHR ''>'' \<notin> set tail"
    by (simp add: tail_def)
  have a: "takeWhile (\<lambda>c. c \<noteq> CHR 0x0A) after = []"
  proof (cases after)
    case Nil
    then show ?thesis by simp
  next
    case (Cons y ys)
    then have "y = CHR 0x0A"
      unfolding after_def by (rule dropWhile_neq_Cons)
    then show ?thesis using Cons by simp
  qed
  have e: "header = ''<'' @ rev found @ ''>'' @ (tail @ after)"
    using h b l by simp
  have "takeWhile (\<lambda>c. c \<noteq> CHR 0x0A) (tail @ after) = tail"
    using nt a by (simp add: takeWhile_neq_append)
  then have "CHR ''>'' \<notin> set (takeWhile (\<lambda>c. c \<noteq> CHR 0x0A) (tail @ after))"
    using gt by simp
  with e nf p show ?thesis
    by auto
qed

text \<open>
  A \<open>Link\<close> value that the pattern does not match is no parse failure: the parser
  returns the empty string, \<open>url.Parse\<close> accepts it, and the outcome of
  \<open>obscureHeader\<close> is that of the store's \<open>Put\<close> for the empty URL.
\<close>

lemma unmatched_Link_is_parsed:
  assumes "Header_Get (Header (ResponseWriter w)) ''Link'' \<noteq> []"
    and "parseLinkHeader (Header_Get (Header (ResponseWriter w)) ''Link'') = []"
  shows "fst (obscureHeader h st w ''Link'' parseLinkHeader)
           = fst (Store_Put (h_store h) st (h_obscurer h new_URL) new_URL)"
  using assms by (simp add: obscureHeader_def Let_def Parse_empty split: prod.splits)

lemma link_without_brackets_run:
  "foldl apply_action \<lparr>ResponseWriter = NewRecorder, body = Bytes [], status = 0\<rparr> (link_without_brackets r)
   = \<lparr>ResponseWriter = NewRecorder\<lparr>Header := fmupd ''Link'' [''foo''] fmempty\<rparr>, body = Bytes [], status = 200\<rparr>"
  by (simp add: link_without_brackets_def handler_defs)

lemma link_without_brackets_obscureHeader:
  "obscureHeader (NewHandler md5Obscurer_impl memoryStore_impl wrapped) DefaultStore
     \<lparr>ResponseWriter = NewRecorder\<lparr>Header := fmupd ''Link'' [''foo''] fmempty\<rparr>, body = Bytes [], status = 200\<rparr>
     ''Link'' parseLinkHeader
   = (None,
      \<lparr>ResponseWriter = NewRecorder\<lparr>Header := fmupd ''Link''
          [''/d41d8cd98f00b204e9800998ecf8427ef/d41d8cd98f00b204e9800998ecf8427eo/d41d8cd98f00b204e9800998ecf8427eo/d41d8cd98f00b204e9800998ecf8427e''] fmempty\<rparr>,
        body = Bytes [], status = 200\<rparr>,
      \<lparr>store = fmupd ''/d41d8cd98f00b204e9800998ecf8427e'' new_URL fmempty\<rparr>)"
  by (simp add: obscureHeader_def Let_def Header_Get_def parseLinkHeader_def NewRecorder_def fmt_printed_def
        Parse_empty String_new_URL obscured_new_URL String_obscured_new_URL ReplaceAll_foo
        memoryStore_impl_def Put_def DefaultStore_def set_Header_def Header_Set_def)

lemma link_without_brackets_ServeHTTP:
  "ServeHTTP (NewHandler md5Obscurer_impl memoryStore_impl link_without_brackets)
      DefaultStore NewRecorder (NewRequest ''GET'' url_way)
   = (NewRecorder\<lparr>Header := fmupd ''Link''
          [''/d41d8cd98f00b204e9800998ecf8427ef/d41d8cd98f00b204e9800998ecf8427eo/d41d8cd98f00b204e9800998ecf8427eo/d41d8cd98f00b204e9800998ecf8427e''] fmempty,
         calls := [WriteHeader_call 200]\<rparr>,
      \<lparr>store = fmupd ''/d41d8cd98f00b204e9800998ecf8427e'' new_URL fmempty\<rparr>)"
proof -
  let ?h = "NewHandler md5Obscurer_impl memoryStore_impl link_without_brackets"
  let ?rw = "\<lparr>ResponseWriter = NewRecorder\<lparr>Header := fmupd ''Link'' [''foo''] fmempty\<rparr>, body = Bytes [], status = 200\<rparr>"
  have d: "deobscure ?h DefaultStore (NewRequest ''GET'' url_way) = NewRequest ''GET'' url_way"
    by (simp add: deobscure_def memoryStore_impl_def Get_def DefaultStore_def)
  have r: "remove_missing ?h (NewRequest ''GET'' url_way) (?rw, DefaultStore) = (?rw, DefaultStore)"
    by (simp add: remove_missing_def)
  have l: "obscureHeader ?h DefaultStore ?rw ''Location'' defaultParseHeader = (None, ?rw, DefaultStore)"
    by (simp add: obscureHeader_def Header_Get_def NewRecorder_def Let_def)
  have c: "obscureHeader ?h DefaultStore ?rw ''Content-Location'' defaultParseHeader = (None, ?rw, DefaultStore)"
    by (simp add: obscureHeader_def Header_Get_def NewRecorder_def Let_def)
  have f: "deferred_Do \<lparr>ResponseWriter = NewRecorder\<lparr>Header := fmupd ''Link''
          [''/d41d8cd98f00b204e9800998ecf8427ef/d41d8cd98f00b204e9800998ecf8427eo/d41d8cd98f00b204e9800998ecf8427eo/d41d8cd98f00b204e9800998ecf8427e''] fmempty\<rparr>,
        body = Bytes [], status = 200\<rparr>
     = \<lparr>ResponseWriter = NewRecorder\<lparr>Header := fmupd ''Link''
          [''/d41d8cd98f00b204e9800998ecf8427ef/d41d8cd98f00b204e9800998ecf8427eo/d41d8cd98f00b204e9800998ecf8427eo/d41d8cd98f00b204e9800998ecf8427e''] fmempty,
         calls := [WriteHeader_call 200]\<rparr>, body = Bytes [], status = 200\<rparr>"
    by (simp add: deferred_Do_def Do_def http_WriteHeader_def NewRecorder_def)
  show ?thesis
    by (simp add: ServeHTTP_def d Let_def link_without_brackets_run r obscure_headers_def
          obscure_or_500_def l c link_without_brackets_obscureHeader f)
qed

text \<open>
  C7 says that the URL of a \<open>Link\<close> value is what stands between the leading \<open><\<close>
  and the first \<open>>\<close>, and that a non-empty value the pattern does not match is a
  parse failure, answered by 500 with the message of \<open>Link\<close>. The code does otherwise.
  For the value \<open>foo\<close> the parser returns the empty string, which \<open>url.Parse\<close>
  accepts: the response keeps its status 200, the header is sent with the obscured form
  of the empty URL put around each of its characters, and a mapping for the empty URL is
  stored. And for a value with two links the greedy pattern captures up to the last
  \<open>>\<close>, not the first.
\<close>

theorem unbracketed_Link_is_no_failure:
  "parseLinkHeader ''foo'' = [] \<and> Parse [] = Inr new_URL
   \<and> calls (fst (ServeHTTP (NewHandler md5Obscurer_impl memoryStore_impl link_without_brackets)
                   DefaultStore NewRecorder (NewRequest ''GET'' url_way)))
       = [WriteHeader_call 200]
   \<and> Header_Get (Header (fst (ServeHTTP (NewHandler md5Obscurer_impl memoryStore_impl link_without_brackets)
                   DefaultStore NewRecorder (NewRequest ''GET'' url_way)))) ''Link''
       = ''/d41d8cd98f00b204e9800998ecf8427ef/d41d8cd98f00b204e9800998ecf8427eo/d41d8cd98f00b204e9800998ecf8427eo/d41d8cd98f00b204e9800998ecf8427e''
   \<and> Get (snd (ServeHTTP (NewHandler md5Obscurer_impl memoryStore_impl link_without_brackets)
                   DefaultStore NewRecorder (NewRequest ''GET'' url_way)))
          (md5Obscurer_impl new_URL) = Some new_URL
   \<and> parseLinkHeader ''</a/1>; rel=prev, </a/2>; rel=next'' = ''/a/1>; rel=prev, </a/2''"
proof -
  have a: "parseLinkHeader ''foo'' = []"
    by (simp add: parseLinkHeader_def)
  have b: "parseLinkHeader ''</a/1>; rel=prev, </a/2>; rel=next'' = ''/a/1>; rel=prev, </a/2''"
    by (simp add: parseLinkHeader_def)
  show ?thesis
    by (simp add: a b Parse_empty link_without_brackets_ServeHTTP obscured_new_URL
          Header_Get_def Get_def)
qed

section \<open>Properties of the response writers\<close>

text \<open>
  The writer with \<open>Do\<close>, with which the handler works, records
  \<open>WriteHeader\<close> and \<open>Write\<close> and sends nothing; its \<open>Do\<close> writes no status when
  none was recorded.
\<close>

lemma WriteHeader_records:
  "ResponseWriter (WriteHeader rw code) = ResponseWriter rw \<and> status (WriteHeader rw code) = code"
  by (simp add: WriteHeader_def)

lemma Do_without_status:
  "status rw = 0 \<Longrightarrow>
     calls (ResponseWriter (snd (Do rw)))
       = calls (ResponseWriter rw) @ (if len (body rw) = 0 then [] else [sent (body rw)])"
  by (simp add: Do_def http_Write_def Let_def)

text \<open>
  The writer with \<open>Flush\<close>, with which the middleware works, records the status when \<open>autoFlush\<close> is off, as the
  middleware creates it, and sends it at once when \<open>autoFlush\<close> is on. Its \<open>Flush\<close>
  writes the recorded status whatever it is.
\<close>

lemma WriteHeader_f_records:
  "\<not> autoFlush rw \<Longrightarrow> WriteHeader_f rw code = rw\<lparr>status_f := code\<rparr>"
  by (simp add: WriteHeader_f_def)

lemma WriteHeader_f_autoFlush:
  "autoFlush rw \<Longrightarrow>
     calls (ResponseWriter_f (WriteHeader_f rw code)) = calls (ResponseWriter_f rw) @ [WriteHeader_call code]"
  by (simp add: WriteHeader_f_def Flush_def http_WriteHeader_def)

lemma Flush_calls:
  "calls (ResponseWriter_f (Flush rw)) = calls (ResponseWriter_f rw) @ [WriteHeader_call (status_f rw)]"
  by (simp add: Flush_def http_WriteHeader_def)

text \<open>
  C4 says that the recording writer keeps the status back and that on flush, when the
  wrapped handler has set no status, no status is written to the underlying writer. With
  the writer of the middleware the code does otherwise: for a wrapped handler that
  sets nothing, the deferred \<open>Flush\<close> calls \<open>WriteHeader(0)\<close> on the underlying
  writer.
\<close>

theorem Flush_writes_status_never_set:
  "middleware_ServeHTTP (NewMiddleware md5Obscurer_impl memoryStore_impl silent)
      DefaultStore NewRecorder (NewRequest ''GET'' url_way)
     = (NewRecorder\<lparr>calls := [WriteHeader_call 0]\<rparr>, DefaultStore)"
  by (simp add: middleware_ServeHTTP_def NewMiddleware_def silent_def m_obscure_or_500_def
        m_obscureHeader_def Flush_def http_WriteHeader_def NewRecorder_def Header_Get_def
        defaultParseHeader_def parseLinkHeader_def Let_def)

end
